theory Spec2Isabelle
  imports Main "HOL-Library.Product_Lexorder"
begin

section \<open>Strings and the fixed symbols\<close>

text \<open>
  A string of the source is a sequence of UTF-16 code units; \<open>charAt\<close> and \<open>===\<close> work
  on code units. Every symbol the program names lies in the Basic Multilingual Plane and
  is one code unit. A code unit is written as a natural number, so every string of the
  source is a value of \<open>jsstring\<close>.
\<close>

type_synonym jsstring = "nat list"

text \<open>The twelve earthly branches.\<close>

abbreviation br_zi :: jsstring where "br_zi \<equiv> [0x5B50]"
abbreviation br_chou :: jsstring where "br_chou \<equiv> [0x4E11]"
abbreviation br_yin :: jsstring where "br_yin \<equiv> [0x5BC5]"
abbreviation br_mao :: jsstring where "br_mao \<equiv> [0x536F]"
abbreviation br_chen :: jsstring where "br_chen \<equiv> [0x8FB0]"
abbreviation br_si :: jsstring where "br_si \<equiv> [0x5DF3]"
abbreviation br_wu :: jsstring where "br_wu \<equiv> [0x5348]"
abbreviation br_wei :: jsstring where "br_wei \<equiv> [0x672A]"
abbreviation br_shen :: jsstring where "br_shen \<equiv> [0x7533]"
abbreviation br_you :: jsstring where "br_you \<equiv> [0x9149]"
abbreviation br_xu :: jsstring where "br_xu \<equiv> [0x620C]"
abbreviation br_hai :: jsstring where "br_hai \<equiv> [0x4EA5]"

text \<open>The ten heavenly stems.\<close>

abbreviation st_jia :: jsstring where "st_jia \<equiv> [0x7532]"
abbreviation st_yi :: jsstring where "st_yi \<equiv> [0x4E59]"
abbreviation st_bing :: jsstring where "st_bing \<equiv> [0x4E19]"
abbreviation st_ding :: jsstring where "st_ding \<equiv> [0x4E01]"
abbreviation st_wu :: jsstring where "st_wu \<equiv> [0x620A]"
abbreviation st_ji :: jsstring where "st_ji \<equiv> [0x5DF1]"
abbreviation st_geng :: jsstring where "st_geng \<equiv> [0x5E9A]"
abbreviation st_xin :: jsstring where "st_xin \<equiv> [0x8F9B]"
abbreviation st_ren :: jsstring where "st_ren \<equiv> [0x58EC]"
abbreviation st_gui :: jsstring where "st_gui \<equiv> [0x7678]"

text \<open>The brightness grades the override table uses.\<close>

abbreviation gr_miao :: jsstring where "gr_miao \<equiv> [0x5EDF]"
abbreviation gr_wang :: jsstring where "gr_wang \<equiv> [0x65FA]"
abbreviation gr_de :: jsstring where "gr_de \<equiv> [0x5F97]"
abbreviation gr_li :: jsstring where "gr_li \<equiv> [0x5229]"
abbreviation gr_ping :: jsstring where "gr_ping \<equiv> [0x5E73]"
abbreviation gr_bu :: jsstring where "gr_bu \<equiv> [0x4E0D]"

text \<open>The three stars of the override table: Moon, Sun and Lu Cun.\<close>

abbreviation taiyin :: jsstring where "taiyin \<equiv> [0x592A, 0x9670]"
abbreviation taiyang :: jsstring where "taiyang \<equiv> [0x592A, 0x967D]"
abbreviation lucun :: jsstring where "lucun \<equiv> [0x797F, 0x5B58]"

text \<open>The five five-element classes: Water-2, Wood-3, Metal-4, Earth-5, Fire-6.\<close>

abbreviation shui_er_ju :: jsstring where "shui_er_ju \<equiv> [0x6C34, 0x4E8C, 0x5C40]"
abbreviation mu_san_ju :: jsstring where "mu_san_ju \<equiv> [0x6728, 0x4E09, 0x5C40]"
abbreviation jin_si_ju :: jsstring where "jin_si_ju \<equiv> [0x91D1, 0x56DB, 0x5C40]"
abbreviation tu_wu_ju :: jsstring where "tu_wu_ju \<equiv> [0x571F, 0x4E94, 0x5C40]"
abbreviation huo_liu_ju :: jsstring where "huo_liu_ju \<equiv> [0x706B, 0x516D, 0x5C40]"

text \<open>
  The twelve palace names: Life, Parents, Fortune, Property, Career, Friends, Travel,
  Health, Wealth, Children, Spouse, Siblings.
\<close>

abbreviation ming_gong :: jsstring where "ming_gong \<equiv> [0x547D, 0x5BAE]"
abbreviation fumu_gong :: jsstring where "fumu_gong \<equiv> [0x7236, 0x6BCD, 0x5BAE]"
abbreviation fude_gong :: jsstring where "fude_gong \<equiv> [0x798F, 0x5FB7, 0x5BAE]"
abbreviation tianzhai_gong :: jsstring where "tianzhai_gong \<equiv> [0x7530, 0x5B85, 0x5BAE]"
abbreviation guanlu_gong :: jsstring where "guanlu_gong \<equiv> [0x5B98, 0x797F, 0x5BAE]"
abbreviation jiaoyou_gong :: jsstring where "jiaoyou_gong \<equiv> [0x4EA4, 0x53CB, 0x5BAE]"
abbreviation qianyi_gong :: jsstring where "qianyi_gong \<equiv> [0x9077, 0x79FB, 0x5BAE]"
abbreviation jie_gong :: jsstring where "jie_gong \<equiv> [0x75BE, 0x5384, 0x5BAE]"
abbreviation caibo_gong :: jsstring where "caibo_gong \<equiv> [0x8CA1, 0x5E1B, 0x5BAE]"
abbreviation zinv_gong :: jsstring where "zinv_gong \<equiv> [0x5B50, 0x5973, 0x5BAE]"
abbreviation fuqi_gong :: jsstring where "fuqi_gong \<equiv> [0x592B, 0x59BB, 0x5BAE]"
abbreviation xiongdi_gong :: jsstring where "xiongdi_gong \<equiv> [0x5144, 0x5F1F, 0x5BAE]"

section \<open>The operators of the source language\<close>

text \<open>
  Numbers of the source are the integers the form layer and the calendar supply (years,
  months, days, ages); they are modelled as \<open>int\<close>.

  A lookup table written as an object literal and typed \<open>Record<string, _>\<close> is
  the association list of the entries it lists, read with \<open>map_of\<close>; a key that is
  not listed reads as \<open>undefined\<close> (\<open>None\<close>), unless it names a member that every
  object inherits. The table of start ages is read with the class label, any string,
  and its model answers for the inherited members too. The brightness table and the
  origin table are modelled on their listed keys: they are read with the name of a
  star and then a branch, and with a stem, and a branch or a stem is a single symbol,
  which names no inherited member and no property of one.
\<close>

definition objectPrototypeMembers :: "jsstring list" where
  \<comment> \<open>the names of the members of \<open>Object.prototype\<close>, in code units: \<open>constructor\<close>,
      \<open>__defineGetter__\<close>, \<open>__defineSetter__\<close>, \<open>hasOwnProperty\<close>,
      \<open>__lookupGetter__\<close>, \<open>__lookupSetter__\<close>, \<open>isPrototypeOf\<close>,
      \<open>propertyIsEnumerable\<close>, \<open>toString\<close>, \<open>valueOf\<close>, \<open>__proto__\<close>,
      \<open>toLocaleString\<close>; each is a function or an object, hence truthy\<close>
  "objectPrototypeMembers =
     [[0x63, 0x6F, 0x6E, 0x73, 0x74, 0x72, 0x75, 0x63, 0x74, 0x6F, 0x72],
      [0x5F, 0x5F, 0x64, 0x65, 0x66, 0x69, 0x6E, 0x65, 0x47, 0x65, 0x74, 0x74, 0x65, 0x72, 0x5F, 0x5F],
      [0x5F, 0x5F, 0x64, 0x65, 0x66, 0x69, 0x6E, 0x65, 0x53, 0x65, 0x74, 0x74, 0x65, 0x72, 0x5F, 0x5F],
      [0x68, 0x61, 0x73, 0x4F, 0x77, 0x6E, 0x50, 0x72, 0x6F, 0x70, 0x65, 0x72, 0x74, 0x79],
      [0x5F, 0x5F, 0x6C, 0x6F, 0x6F, 0x6B, 0x75, 0x70, 0x47, 0x65, 0x74, 0x74, 0x65, 0x72, 0x5F, 0x5F],
      [0x5F, 0x5F, 0x6C, 0x6F, 0x6F, 0x6B, 0x75, 0x70, 0x53, 0x65, 0x74, 0x74, 0x65, 0x72, 0x5F, 0x5F],
      [0x69, 0x73, 0x50, 0x72, 0x6F, 0x74, 0x6F, 0x74, 0x79, 0x70, 0x65, 0x4F, 0x66],
      [0x70, 0x72, 0x6F, 0x70, 0x65, 0x72, 0x74, 0x79, 0x49, 0x73, 0x45, 0x6E, 0x75, 0x6D, 0x65, 0x72,
       0x61, 0x62, 0x6C, 0x65],
      [0x74, 0x6F, 0x53, 0x74, 0x72, 0x69, 0x6E, 0x67],
      [0x76, 0x61, 0x6C, 0x75, 0x65, 0x4F, 0x66],
      [0x5F, 0x5F, 0x70, 0x72, 0x6F, 0x74, 0x6F, 0x5F, 0x5F],
      [0x74, 0x6F, 0x4C, 0x6F, 0x63, 0x61, 0x6C, 0x65, 0x53, 0x74, 0x72, 0x69, 0x6E, 0x67]]"

abbreviation key_constructor :: jsstring where
  "key_constructor \<equiv> [0x63, 0x6F, 0x6E, 0x73, 0x74, 0x72, 0x75, 0x63, 0x74, 0x6F, 0x72]"

text \<open>
  The start age is declared a number, and it is one unless the class label names an
  inherited member: then it is that member. The sum of a member and a number is a
  string, the text of the member followed by the digits of the number. Such a string
  is no numeral: a number subtracted from it gives \<open>NaN\<close>, and every comparison of a
  number with it, or with \<open>NaN\<close>, is false.
\<close>

datatype looked_up = Number int | Member jsstring

datatype age_value = Num int | Text jsstring int | NaN

fun add_number :: "looked_up \<Rightarrow> int \<Rightarrow> age_value" where
  \<comment> \<open>\<open>x + n\<close> for a number \<open>n\<close>\<close>
  "add_number (Number a) n = Num (a + n)"
| "add_number (Member k) n = Text k n"

fun sub_number :: "age_value \<Rightarrow> int \<Rightarrow> age_value" where
  \<comment> \<open>\<open>x - n\<close> for a number \<open>n\<close>\<close>
  "sub_number (Num a) n = Num (a - n)"
| "sub_number (Text k m) n = NaN"
| "sub_number NaN n = NaN"

fun number_ge :: "int \<Rightarrow> age_value \<Rightarrow> bool" where
  \<comment> \<open>\<open>a >= x\<close> for a number \<open>a\<close>\<close>
  "number_ge a (Num b) = (a \<ge> b)"
| "number_ge a (Text k m) = False"
| "number_ge a NaN = False"

fun number_le :: "int \<Rightarrow> age_value \<Rightarrow> bool" where
  \<comment> \<open>\<open>a <= x\<close> for a number \<open>a\<close>\<close>
  "number_le a (Num b) = (a \<le> b)"
| "number_le a (Text k m) = False"
| "number_le a NaN = False"

definition charAt :: "jsstring \<Rightarrow> nat \<Rightarrow> jsstring" where
  \<comment> \<open>\<open>s.charAt(i)\<close>: the code unit at \<open>i\<close> as a string, the empty string out of range\<close>
  "charAt s i = take 1 (drop i s)"

definition or_str :: "jsstring option \<Rightarrow> jsstring \<Rightarrow> jsstring" where
  \<comment> \<open>\<open>x || d\<close> for a string or \<open>undefined\<close>: both \<open>undefined\<close> and \<open>''\<close> are falsy\<close>
  "or_str x d = (case x of None \<Rightarrow> d | Some s \<Rightarrow> if s = [] then d else s)"

fun indexOf_from :: "int \<Rightarrow> 'a list \<Rightarrow> 'a \<Rightarrow> int" where
  "indexOf_from i [] x = - 1"
| "indexOf_from i (y # ys) x = (if y = x then i else indexOf_from (i + 1) ys x)"

definition indexOf :: "'a list \<Rightarrow> 'a \<Rightarrow> int" where
  \<comment> \<open>\<open>xs.indexOf(x)\<close>: the first index of \<open>x\<close>, and \<open>-1\<close> when \<open>x\<close> does not occur\<close>
  "indexOf xs x = indexOf_from 0 xs x"

definition rem :: "int \<Rightarrow> int \<Rightarrow> int" where
  \<comment> \<open>\<open>a % b\<close> for \<open>b \<noteq> 0\<close>: the remainder of the division truncated towards zero;
      it has the sign of \<open>a\<close>\<close>
  "rem a b = sgn a * (\<bar>a\<bar> mod \<bar>b\<bar>)"

definition at_index :: "'a list \<Rightarrow> int \<Rightarrow> 'a option" where
  \<comment> \<open>\<open>xs[i]\<close>: \<open>undefined\<close> for an index below zero or beyond the last element\<close>
  "at_index xs i = (if 0 \<le> i \<and> i < int (length xs) then Some (xs ! nat i) else None)"

section \<open>Data model\<close>

text \<open>
  \<open>BirthData\<close> of \<open>lib/types.ts\<close>, without the optional display name. The gender
  is the union of the two literals for male and female.
\<close>

datatype Gender = Male | Female

record BirthData =
  year :: int
  month :: int
  day :: int
  hour :: int
  gender :: Gender
  isLunar :: bool

text \<open>
  \<open>StarData\<close>; the fields \<open>name\<close> and \<open>type\<close> of the source are \<open>star_name\<close> and
  \<open>star_type\<close> here. The stars of the chart engine have the same shape.
\<close>

record StarData =
  star_name :: jsstring
  star_type :: jsstring
  brightness :: "jsstring option"
  mutagen :: "jsstring option"

text \<open>
  A palace as the chart engine returns it, and \<open>PalaceData\<close>, which adds the two flags.
\<close>

record EnginePalace =
  name :: jsstring
  heavenlyStem :: jsstring
  earthlyBranch :: jsstring
  majorStars :: "StarData list"
  minorStars :: "StarData list"
  adjectiveStars :: "StarData list"

record PalaceData = EnginePalace +
  isBodyPalace :: bool
  isSoulPalace :: bool

text \<open>
  \<open>DecadalFortune\<close> and \<open>YearlyFortune\<close>. The optional field \<open>stars\<close> is never set by
  the program and is left out. The two ages of a decadal fortune are computed from the
  start age and hold what that computation yields. The branch of the yearly fortune is
  read from an array and can be \<open>undefined\<close>.
\<close>

record DecadalFortune =
  index :: int
  d_heavenlyStem :: jsstring
  d_earthlyBranch :: jsstring
  palaceName :: jsstring
  startAge :: age_value
  endAge :: age_value

record YearlyFortune =
  y_year :: int
  y_heavenlyStem :: jsstring
  y_earthlyBranch :: "jsstring option"
  y_palaceName :: jsstring
  y_age :: int

text \<open>
  What \<open>calculateAstrolabe\<close> reads of the chart engine's result (an untyped value in the
  source). \<open>chineseDate\<close> is read through \<open>?.\<close> and may be absent.
\<close>

record EngineAstrolabe =
  e_palaces :: "EnginePalace list"
  e_chineseDate :: "jsstring option"
  e_fiveElementsClass :: jsstring
  e_earthlyBranchOfBodyPalace :: jsstring
  e_earthlyBranchOfSoulPalace :: jsstring
  e_solarDate :: jsstring
  e_lunarDate :: jsstring
  e_time :: jsstring
  e_timeRange :: jsstring
  e_gender :: jsstring
  e_soul :: "jsstring option"
  e_body :: "jsstring option"
  e_zodiac :: jsstring
  e_sign :: jsstring

record AstrolabeData =
  solarDate :: jsstring
  lunarDate :: jsstring
  chineseDate :: "jsstring option"
  a_time :: jsstring
  timeRange :: jsstring
  a_gender :: jsstring
  fiveElementsClass :: jsstring
  soulStar :: jsstring
  bodyStar :: jsstring
  earthlyBranchOfSoulPalace :: jsstring
  earthlyBranchOfBodyPalace :: jsstring
  zodiac :: jsstring
  a_sign :: jsstring
  palaces :: "PalaceData list"
  birthYear :: int
  age :: int
  realAge :: int
  currentDecadal :: "DecadalFortune option"
  currentYearly :: YearlyFortune
  decadalFortunes :: "DecadalFortune list"

text \<open>
  The wall clock, which the source reads with \<open>new Date()\<close>, is an argument: the year,
  the month (1 to 12) and the day of the month of the moment of the call.
\<close>

record Today =
  currentYear :: int
  currentMonth :: int
  currentDay :: int

text \<open>The result of \<open>calculateOriginPalace\<close> (\<open>app/page.tsx\<close>).\<close>

record OriginPalace =
  branch :: jsstring
  palace :: jsstring

section \<open>Brightness override (\<open>lib/astrolabe.ts\<close>, lines 9 to 91)\<close>

definition all_branches :: "jsstring \<Rightarrow> jsstring \<Rightarrow> jsstring \<Rightarrow> jsstring \<Rightarrow> jsstring \<Rightarrow>
    jsstring \<Rightarrow> jsstring \<Rightarrow> jsstring \<Rightarrow> jsstring \<Rightarrow> jsstring \<Rightarrow> jsstring \<Rightarrow> jsstring \<Rightarrow>
    (jsstring \<times> jsstring) list" where
  \<comment> \<open>one inner table: a grade for each branch, in the order the source lists them\<close>
  "all_branches g0 g1 g2 g3 g4 g5 g6 g7 g8 g9 g10 g11 =
     [(br_zi, g0), (br_chou, g1), (br_yin, g2), (br_mao, g3), (br_chen, g4), (br_si, g5),
      (br_wu, g6), (br_wei, g7), (br_shen, g8), (br_you, g9), (br_xu, g10), (br_hai, g11)]"

definition NI_SHI_BRIGHTNESS_OVERRIDE :: "(jsstring \<times> (jsstring \<times> jsstring) list) list" where
  "NI_SHI_BRIGHTNESS_OVERRIDE =
     [(taiyin, all_branches gr_miao gr_miao gr_wang gr_de gr_li gr_ping
                            gr_bu gr_ping gr_li gr_wang gr_wang gr_miao),
      (taiyang, all_branches gr_bu gr_bu gr_ping gr_li gr_de gr_wang
                             gr_miao gr_miao gr_wang gr_de gr_li gr_ping),
      (lucun, all_branches gr_miao gr_miao gr_miao gr_miao gr_miao gr_miao
                           gr_miao gr_miao gr_miao gr_miao gr_miao gr_miao)]"

definition getStarBrightness :: "jsstring \<Rightarrow> jsstring \<Rightarrow> jsstring option \<Rightarrow> jsstring option" where
  \<comment> \<open>\<open>if (override && override[earthlyBranch]) return override[earthlyBranch];
      return originalBrightness;\<close> (an empty grade would be falsy)\<close>
  "getStarBrightness starName earthlyBranch' originalBrightness =
     (case map_of NI_SHI_BRIGHTNESS_OVERRIDE starName of
        None \<Rightarrow> originalBrightness
      | Some override \<Rightarrow>
          (case map_of override earthlyBranch' of
             None \<Rightarrow> originalBrightness
           | Some grade \<Rightarrow> if grade = [] then originalBrightness else Some grade))"

section \<open>Ages (lines 157 to 185)\<close>

definition calculateAge :: "Today \<Rightarrow> int \<Rightarrow> int \<Rightarrow> int \<Rightarrow> int \<times> int" where
  \<comment> \<open>returns \<open>(realAge, age)\<close>\<close>
  "calculateAge today birthYear' birthMonth birthDay =
     (let realAge0 = currentYear today - birthYear';
          realAge1 = (if currentMonth today < birthMonth
                         \<or> (currentMonth today = birthMonth \<and> currentDay today < birthDay)
                      then realAge0 - 1 else realAge0);
          age' = realAge1 + 1
      in (max 0 realAge1, max 1 age'))"

definition startAgeMap :: "(jsstring \<times> int) list" where
  "startAgeMap = [(shui_er_ju, 2), (mu_san_ju, 3), (jin_si_ju, 4), (tu_wu_ju, 5), (huo_liu_ju, 6)]"

definition getStartAge :: "jsstring \<Rightarrow> looked_up" where
  \<comment> \<open>\<open>startAgeMap[fiveElementsClass] || 5\<close>: a listed entry (the number 0 would be
      falsy), else an inherited member, which is truthy, else \<open>undefined\<close> and so 5\<close>
  "getStartAge fiveElementsClass' =
     (case map_of startAgeMap fiveElementsClass' of
        Some n \<Rightarrow> if n = 0 then Number 5 else Number n
      | None \<Rightarrow>
          if fiveElementsClass' \<in> set objectPrototypeMembers then Member fiveElementsClass'
          else Number 5)"

section \<open>The palaces of the result (lines 208 to 248)\<close>

text \<open>
  \<open>calculateAstrolabe\<close> computes its result in blocks, each ending in a local
  constant: \<open>palaces\<close>, \<open>decadalFortunes\<close>, \<open>currentDecadal\<close> and
  \<open>currentYearly\<close>. These names are the fields of the result here, and the blocks are
  the functions \<open>calc_palaces\<close>, \<open>calc_decadalFortunes\<close>, \<open>calc_currentDecadal\<close>
  and \<open>calc_currentYearly\<close>; the other local constants keep their names.
\<close>

definition overriddenStar :: "jsstring \<Rightarrow> StarData \<Rightarrow> StarData" where
  \<comment> \<open>the mapping applied to \<open>majorStars\<close> and to \<open>minorStars\<close>\<close>
  "overriddenStar earthlyBranch' star =
     \<lparr>star_name = star_name star, star_type = star_type star,
      brightness = getStarBrightness (star_name star) earthlyBranch' (brightness star),
      mutagen = mutagen star\<rparr>"

definition nameAndType :: "StarData \<Rightarrow> StarData" where
  \<comment> \<open>the mapping applied to \<open>adjectiveStars\<close>: the new object has the two fields
      \<open>name\<close> and \<open>type\<close> only\<close>
  "nameAndType star =
     \<lparr>star_name = star_name star, star_type = star_type star,
      brightness = None, mutagen = None\<rparr>"

definition calc_palace :: "jsstring \<Rightarrow> EnginePalace \<Rightarrow> PalaceData" where
  \<comment> \<open>the body of \<open>astrolabe.palaces.map\<close>; the console output of \<open>isBodyPalaceMatch\<close>
      is not modelled\<close>
  "calc_palace bodyPalaceBranch p =
     \<lparr>name = name p, heavenlyStem = heavenlyStem p, earthlyBranch = earthlyBranch p,
      majorStars = map (overriddenStar (earthlyBranch p)) (majorStars p),
      minorStars = map (overriddenStar (earthlyBranch p)) (minorStars p),
      adjectiveStars = map nameAndType (adjectiveStars p),
      isBodyPalace = (earthlyBranch p = bodyPalaceBranch),
      isSoulPalace = (name p = ming_gong)\<rparr>"

definition calc_palaces :: "EngineAstrolabe \<Rightarrow> PalaceData list" where
  "calc_palaces astrolabe =
     map (calc_palace (e_earthlyBranchOfBodyPalace astrolabe)) (e_palaces astrolabe)"

section \<open>Decadal fortunes (lines 253 to 290)\<close>

definition palaceOrder :: "jsstring list" where
  "palaceOrder =
     [ming_gong, fumu_gong, fude_gong, tianzhai_gong, guanlu_gong, jiaoyou_gong,
      qianyi_gong, jie_gong, caibo_gong, zinv_gong, fuqi_gong, xiongdi_gong]"

definition palaceOrderReverse :: "jsstring list" where
  "palaceOrderReverse =
     [ming_gong, xiongdi_gong, fuqi_gong, zinv_gong, caibo_gong, jie_gong,
      qianyi_gong, jiaoyou_gong, guanlu_gong, tianzhai_gong, fude_gong, fumu_gong]"

definition yangStems :: "jsstring list" where
  "yangStems = [st_jia, st_bing, st_wu, st_geng, st_ren]"

definition yearStem :: "EngineAstrolabe \<Rightarrow> jsstring" where
  \<comment> \<open>\<open>astrolabe.chineseDate?.charAt(0) || ''\<close>\<close>
  "yearStem astrolabe = or_str (map_option (\<lambda>s. charAt s 0) (e_chineseDate astrolabe)) []"

definition isYangYear :: "EngineAstrolabe \<Rightarrow> bool" where
  "isYangYear astrolabe = (yearStem astrolabe \<in> set yangStems)"

definition isMale :: "BirthData \<Rightarrow> bool" where
  "isMale data = (gender data = Male)"

definition isForward :: "EngineAstrolabe \<Rightarrow> BirthData \<Rightarrow> bool" where
  "isForward astrolabe data =
     ((isYangYear astrolabe \<and> isMale data) \<or> (\<not> isYangYear astrolabe \<and> \<not> isMale data))"

definition orderToUse :: "EngineAstrolabe \<Rightarrow> BirthData \<Rightarrow> jsstring list" where
  "orderToUse astrolabe data = (if isForward astrolabe data then palaceOrder else palaceOrderReverse)"

definition decadalFortune ::
    "jsstring list \<Rightarrow> PalaceData list \<Rightarrow> looked_up \<Rightarrow> nat \<Rightarrow> DecadalFortune" where
  \<comment> \<open>the object pushed in iteration \<open>i\<close>; the loop keeps \<open>i\<close> below 12 and both orders
      have 12 names, so \<open>order[i]\<close> is always an element\<close>
  "decadalFortune order ps startAge' i =
     (let palaceName' = order ! i;
          found = find (\<lambda>p. name p = palaceName') ps
      in \<lparr>index = int i + 1,
          d_heavenlyStem = or_str (map_option heavenlyStem found) [],
          d_earthlyBranch = or_str (map_option earthlyBranch found) [],
          palaceName = palaceName',
          startAge = add_number startAge' (int i * 10),
          endAge = sub_number (add_number startAge' ((int i + 1) * 10)) 1\<rparr>)"

function decadalLoop ::
    "jsstring list \<Rightarrow> PalaceData list \<Rightarrow> looked_up \<Rightarrow> nat \<Rightarrow> DecadalFortune list
       \<Rightarrow> DecadalFortune list" where
  \<comment> \<open>\<open>for (let i = 0; i < 12; i++) decadalFortunes.push(...)\<close>\<close>
  "decadalLoop order ps startAge' i acc =
     (if i < 12
      then decadalLoop order ps startAge' (i + 1) (acc @ [decadalFortune order ps startAge' i])
      else acc)"
  by pat_completeness auto
termination
  by (relation "measure (\<lambda>(order, ps, startAge', i, acc). 12 - i)") auto

declare decadalLoop.simps [simp del]

definition calc_decadalFortunes :: "EngineAstrolabe \<Rightarrow> BirthData \<Rightarrow> DecadalFortune list" where
  "calc_decadalFortunes astrolabe data =
     decadalLoop (orderToUse astrolabe data) (calc_palaces astrolabe)
       (getStartAge (e_fiveElementsClass astrolabe)) 0 []"

definition calc_currentDecadal :: "int \<Rightarrow> DecadalFortune list \<Rightarrow> DecadalFortune option" where
  \<comment> \<open>\<open>decadalFortunes.find(d => age >= d.startAge && age <= d.endAge)\<close>\<close>
  "calc_currentDecadal age' ds =
     find (\<lambda>d. number_ge age' (startAge d) \<and> number_le age' (endAge d)) ds"

text \<open>
  The window of a period: the ages between its two bounds, when both are numbers.
\<close>

abbreviation window :: "DecadalFortune \<Rightarrow> int set" where
  "window d \<equiv> {a. \<exists>lo hi. startAge d = Num lo \<and> endAge d = Num hi \<and> lo \<le> a \<and> a \<le> hi}"

section \<open>Yearly fortune (lines 292 to 309)\<close>

definition earthlyBranches :: "jsstring list" where
  "earthlyBranches =
     [br_zi, br_chou, br_yin, br_mao, br_chen, br_si,
      br_wu, br_wei, br_shen, br_you, br_xu, br_hai]"

definition birthYearBranch :: "EngineAstrolabe \<Rightarrow> jsstring" where
  \<comment> \<open>\<open>astrolabe.chineseDate?.charAt(1) || '\<dots>'\<close>, the default being the first branch\<close>
  "birthYearBranch astrolabe = or_str (map_option (\<lambda>s. charAt s 1) (e_chineseDate astrolabe)) br_zi"

definition birthBranchIndex :: "EngineAstrolabe \<Rightarrow> int" where
  "birthBranchIndex astrolabe = indexOf earthlyBranches (birthYearBranch astrolabe)"

definition currentYearBranchIndex :: "Today \<Rightarrow> EngineAstrolabe \<Rightarrow> BirthData \<Rightarrow> int" where
  \<comment> \<open>\<open>(birthBranchIndex + yearDiff) % 12\<close> with \<open>yearDiff = currentYear - data.year\<close>\<close>
  "currentYearBranchIndex today astrolabe data =
     rem (birthBranchIndex astrolabe + (currentYear today - year data)) 12"

definition currentYearBranch :: "Today \<Rightarrow> EngineAstrolabe \<Rightarrow> BirthData \<Rightarrow> jsstring option" where
  "currentYearBranch today astrolabe data =
     at_index earthlyBranches (currentYearBranchIndex today astrolabe data)"

definition calc_currentYearly :: "Today \<Rightarrow> EngineAstrolabe \<Rightarrow> BirthData \<Rightarrow> int \<Rightarrow> YearlyFortune" where
  \<comment> \<open>a palace's branch is a string, so no palace is found for an \<open>undefined\<close> branch\<close>
  "calc_currentYearly today astrolabe data age' =
     (let b = currentYearBranch today astrolabe data;
          yearlyPalace = find (\<lambda>p. Some (earthlyBranch p) = b) (calc_palaces astrolabe)
      in \<lparr>y_year = currentYear today,
          y_heavenlyStem = or_str (map_option heavenlyStem yearlyPalace) [],
          y_earthlyBranch = b,
          y_palaceName = or_str (map_option name yearlyPalace) [],
          y_age = age'\<rparr>)"

section \<open>\<open>calculateAstrolabe\<close> (lines 187 to 334)\<close>

text \<open>
  The chart engine is called once, with the birth data; its result is the argument
  \<open>astrolabe\<close> here, and nothing is assumed about it. The two readings of the clock are
  taken to fall on the same day.
\<close>

definition calculateAstrolabe :: "Today \<Rightarrow> EngineAstrolabe \<Rightarrow> BirthData \<Rightarrow> AstrolabeData" where
  "calculateAstrolabe today astrolabe data =
     (let ps = calc_palaces astrolabe;
          (realAge', age') = calculateAge today (year data) (month data) (day data);
          ds = calc_decadalFortunes astrolabe data
      in \<lparr>solarDate = e_solarDate astrolabe,
          lunarDate = e_lunarDate astrolabe,
          chineseDate = e_chineseDate astrolabe,
          a_time = e_time astrolabe,
          timeRange = e_timeRange astrolabe,
          a_gender = e_gender astrolabe,
          fiveElementsClass = e_fiveElementsClass astrolabe,
          soulStar = or_str (e_soul astrolabe) [],
          bodyStar = or_str (e_body astrolabe) [],
          earthlyBranchOfSoulPalace = e_earthlyBranchOfSoulPalace astrolabe,
          earthlyBranchOfBodyPalace = e_earthlyBranchOfBodyPalace astrolabe,
          zodiac = e_zodiac astrolabe,
          a_sign = e_sign astrolabe,
          palaces = ps,
          birthYear = year data,
          age = age',
          realAge = realAge',
          currentDecadal = calc_currentDecadal age' ds,
          currentYearly = calc_currentYearly today astrolabe data age',
          decadalFortunes = ds\<rparr>)"

section \<open>Origin palace (\<open>app/page.tsx\<close>, lines 42 to 66)\<close>

definition originMapping :: "(jsstring \<times> jsstring) list" where
  "originMapping =
     [(st_jia, br_xu), (st_yi, br_you), (st_bing, br_shen), (st_ding, br_wei), (st_wu, br_wu),
      (st_ji, br_si), (st_geng, br_chen), (st_xin, br_mao), (st_ren, br_yin), (st_gui, br_hai)]"

definition calculateOriginPalace :: "jsstring \<Rightarrow> PalaceData list \<Rightarrow> OriginPalace" where
  \<comment> \<open>\<open>originMapping[yearStem] || '\<dots>'\<close>, then \<open>palaces.find\<close> on the branch\<close>
  "calculateOriginPalace yearStem' ps =
     (let branch' = or_str (map_of originMapping yearStem') br_zi;
          targetPalace = find (\<lambda>p. earthlyBranch p = branch') ps
      in \<lparr>branch = branch',
          palace = (case targetPalace of Some p \<Rightarrow> name p | None \<Rightarrow> ming_gong)\<rparr>)"

text \<open>
  The ten heavenly stems in their order, as the comment above \<open>originMapping\<close> lists them.
\<close>

definition heavenlyStems :: "jsstring list" where
  "heavenlyStems =
     [st_jia, st_yi, st_bing, st_ding, st_wu, st_ji, st_geng, st_xin, st_ren, st_gui]"

section \<open>Example inputs\<close>

text \<open>
  A chart of the shape the engine returns for a male born on 15 March 1984, a Jia-Zi
  year: twelve palaces listed from branch Yin onwards, the Life Palace on branch You,
  class Wood-3. The engine reports the Moon (on branch Zi) as Prosperous and gives no
  brightness for Lu Cun (on branch Yin); Hong Luan (on branch Mao) is an adjective star.
\<close>

definition mk_palace ::
    "jsstring \<Rightarrow> jsstring \<Rightarrow> jsstring \<Rightarrow> StarData list \<Rightarrow> StarData list \<Rightarrow> StarData list \<Rightarrow> EnginePalace" where
  "mk_palace n s b major minor adjective =
     \<lparr>name = n, heavenlyStem = s, earthlyBranch = b,
      majorStars = major, minorStars = minor, adjectiveStars = adjective\<rparr>"

definition mk_star :: "jsstring \<Rightarrow> jsstring \<Rightarrow> jsstring option \<Rightarrow> StarData" where
  "mk_star n t b = \<lparr>star_name = n, star_type = t, brightness = b, mutagen = None\<rparr>"

abbreviation ty_major :: jsstring where "ty_major \<equiv> [0x6D, 0x61, 0x6A, 0x6F, 0x72]"
abbreviation ty_lucun :: jsstring where "ty_lucun \<equiv> [0x6C, 0x75, 0x63, 0x75, 0x6E]"
abbreviation ty_adjective :: jsstring where
  "ty_adjective \<equiv> [0x61, 0x64, 0x6A, 0x65, 0x63, 0x74, 0x69, 0x76, 0x65]"
abbreviation hongluan :: jsstring where "hongluan \<equiv> [0x7D05, 0x9E1E]"

definition example_palaces :: "EnginePalace list" where
  "example_palaces =
     [mk_palace jiaoyou_gong st_bing br_yin [] [mk_star lucun ty_lucun None] [],
      mk_palace qianyi_gong st_ding br_mao [] [] [mk_star hongluan ty_adjective None],
      mk_palace jie_gong st_wu br_chen [] [] [],
      mk_palace caibo_gong st_ji br_si [] [] [],
      mk_palace zinv_gong st_geng br_wu [] [] [],
      mk_palace fuqi_gong st_xin br_wei [] [] [],
      mk_palace xiongdi_gong st_ren br_shen [] [] [],
      mk_palace ming_gong st_gui br_you [] [] [],
      mk_palace fumu_gong st_jia br_xu [] [] [],
      mk_palace fude_gong st_yi br_hai [] [] [],
      mk_palace tianzhai_gong st_bing br_zi [mk_star taiyin ty_major (Some gr_wang)] [] [],
      mk_palace guanlu_gong st_ding br_chou [] [] []]"

definition example_astrolabe :: EngineAstrolabe where
  "example_astrolabe =
     \<lparr>e_palaces = example_palaces,
      e_chineseDate = Some (st_jia @ br_zi @ [0x20] @ st_ding @ br_mao),
      e_fiveElementsClass = mu_san_ju,
      e_earthlyBranchOfBodyPalace = br_hai,
      e_earthlyBranchOfSoulPalace = br_you,
      e_solarDate = [], e_lunarDate = [], e_time = [], e_timeRange = [],
      e_gender = [0x7537], e_soul = None, e_body = None, e_zodiac = [], e_sign = []\<rparr>"

definition example_data :: BirthData where
  "example_data = \<lparr>year = 1984, month = 3, day = 15, hour = 5, gender = Male, isLunar = False\<rparr>"

definition example_today :: Today where
  "example_today = \<lparr>currentYear = 2026, currentMonth = 11, currentDay = 2\<rparr>"

text \<open>
  A chart with a single palace on branch Zi whose adjective stars are a star named as
  the Moon, without brightness, and Hong Luan with the brightness Prosperous.
\<close>

definition adjective_example :: EngineAstrolabe where
  "adjective_example =
     example_astrolabe\<lparr>e_palaces :=
       [mk_palace tianzhai_gong st_bing br_zi [] []
          [mk_star taiyin ty_adjective None, mk_star hongluan ty_adjective (Some gr_wang)]]\<rparr>"

section \<open>Facts about the operators and the tables\<close>

lemma rem_nonneg: "0 \<le> a \<Longrightarrow> rem a 12 = a mod 12"
  by (cases "a = 0") (simp_all add: rem_def)

lemma decadalLoop_eq:
  "decadalLoop order ps s i acc = acc @ map (decadalFortune order ps s) [i..<12]"
proof (induction order ps s i acc rule: decadalLoop.induct)
  case (1 order ps s i acc)
  show ?case
  proof (cases "i < 12")
    case True
    then have "[i..<12] = i # [Suc i..<12]"
      by (simp add: upt_conv_Cons)
    with True "1" show ?thesis
      by (subst decadalLoop.simps) simp
  next
    case False
    then show ?thesis
      by (subst decadalLoop.simps) simp
  qed
qed

lemma calc_decadalFortunes_eq:
  "calc_decadalFortunes astrolabe data =
     map (decadalFortune (orderToUse astrolabe data) (calc_palaces astrolabe)
            (getStartAge (e_fiveElementsClass astrolabe))) [0..<12]"
  by (simp add: calc_decadalFortunes_def decadalLoop_eq)

lemma getStartAge_Number: "getStartAge c = Number s \<Longrightarrow> s \<in> {2, 3, 4, 5, 6}"
  by (auto simp add: getStartAge_def startAgeMap_def split: if_splits)

lemma getStartAge_range:
  "c \<notin> set objectPrototypeMembers \<Longrightarrow> getStartAge c \<in> Number ` {2, 3, 4, 5, 6}"
  by (simp add: getStartAge_def startAgeMap_def)

lemma getStartAge_Member:
  "getStartAge c = Member k \<Longrightarrow> k = c \<and> c \<in> set objectPrototypeMembers"
  by (auto simp add: getStartAge_def startAgeMap_def split: if_splits)

lemma getStartAge_known:
  "getStartAge shui_er_ju = Number 2 \<and> getStartAge mu_san_ju = Number 3
   \<and> getStartAge jin_si_ju = Number 4 \<and> getStartAge tu_wu_ju = Number 5
   \<and> getStartAge huo_liu_ju = Number 6"
  by (simp add: getStartAge_def startAgeMap_def)

lemma getStartAge_other_label:
  "c \<notin> {shui_er_ju, mu_san_ju, jin_si_ju, tu_wu_ju, huo_liu_ju} \<Longrightarrow>
   c \<notin> set objectPrototypeMembers \<Longrightarrow>
     getStartAge c = Number 5
     \<and> calc_decadalFortunes (astrolabe\<lparr>e_fiveElementsClass := c\<rparr>) data
       = calc_decadalFortunes (astrolabe\<lparr>e_fiveElementsClass := tu_wu_ju\<rparr>) data"
proof -
  assume a: "c \<notin> {shui_er_ju, mu_san_ju, jin_si_ju, tu_wu_ju, huo_liu_ju}"
    and b: "c \<notin> set objectPrototypeMembers"
  have 1: "getStartAge c = Number 5"
    using a b by (simp add: getStartAge_def startAgeMap_def)
  have 2: "getStartAge tu_wu_ju = Number 5"
    by (simp add: getStartAge_def startAgeMap_def)
  have 3: "orderToUse (astrolabe\<lparr>e_fiveElementsClass := c\<rparr>) data
      = orderToUse (astrolabe\<lparr>e_fiveElementsClass := tu_wu_ju\<rparr>) data"
    by (simp add: orderToUse_def isForward_def isYangYear_def yearStem_def)
  have 4: "calc_palaces (astrolabe\<lparr>e_fiveElementsClass := c\<rparr>)
      = calc_palaces (astrolabe\<lparr>e_fiveElementsClass := tu_wu_ju\<rparr>)"
    by (simp add: calc_palaces_def)
  show ?thesis
    by (simp add: calc_decadalFortunes_def 1 2 3 4)
qed

lemma override_keys_distinct: "distinct (map fst NI_SHI_BRIGHTNESS_OVERRIDE)"
  by (simp add: NI_SHI_BRIGHTNESS_OVERRIDE_def)

lemma override_inner:
  "(s, t) \<in> set NI_SHI_BRIGHTNESS_OVERRIDE \<Longrightarrow>
     distinct (map fst t) \<and> (\<forall>(b, g) \<in> set t. g \<noteq> [])"
  by (auto simp add: NI_SHI_BRIGHTNESS_OVERRIDE_def all_branches_def)

lemma find_unique_branch:
  "distinct (map earthlyBranch ps) \<Longrightarrow> p \<in> set ps \<Longrightarrow>
     find (\<lambda>q. earthlyBranch q = earthlyBranch p) ps = Some p"
proof (induction ps)
  case Nil
  then show ?case by simp
next
  case (Cons q ps)
  then show ?case by (cases "p = q") force+
qed

lemma find_no_branch:
  "\<forall>q \<in> set ps. earthlyBranch q \<noteq> b \<Longrightarrow> find (\<lambda>q. earthlyBranch q = b) ps = None"
  by (simp add: find_None_iff)

lemma decadalFortunes_field:
  "decadalFortunes (calculateAstrolabe today astrolabe data) = calc_decadalFortunes astrolabe data"
  by (simp add: calculateAstrolabe_def Let_def split: prod.split)

lemma palaceName_decadal:
  "length order = 12 \<Longrightarrow> map palaceName (map (decadalFortune order ps s) [0..<12]) = order"
  by (rule nth_equalityI) (simp_all add: decadalFortune_def Let_def)

lemma length_orderToUse: "length (orderToUse astrolabe data) = 12"
  by (simp add: orderToUse_def palaceOrder_def palaceOrderReverse_def)

lemma yearStem_first:
  "e_chineseDate astrolabe = Some (c # rest) \<Longrightarrow> yearStem astrolabe = [c]"
  by (simp add: yearStem_def charAt_def or_str_def)

lemma decadal_nth:
  "i < 12 \<Longrightarrow>
     index (map (decadalFortune order ps (Number s)) [0..<12] ! i) = int i + 1
     \<and> startAge (map (decadalFortune order ps (Number s)) [0..<12] ! i) = Num (s + 10 * int i)
     \<and> endAge (map (decadalFortune order ps (Number s)) [0..<12] ! i) = Num (s + 10 * int i + 9)"
  by (simp add: decadalFortune_def Let_def)

lemma decadal_nth_member:
  "i < 12 \<Longrightarrow>
     startAge (map (decadalFortune order ps (Member k)) [0..<12] ! i) = Text k (10 * int i)
     \<and> endAge (map (decadalFortune order ps (Member k)) [0..<12] ! i) = NaN"
  by (simp add: decadalFortune_def Let_def)

lemma UN_set_nth: "(\<Union>p \<in> set xs. f p) = (\<Union>i \<in> {0..<length xs}. f (xs ! i))"
proof -
  have "set xs = (!) xs ` {0..<length xs}"
    by (metis list.set_map map_nth set_upt)
  then show ?thesis by simp
qed

lemma window_bounds:
  "startAge d = Num lo \<Longrightarrow> endAge d = Num hi \<Longrightarrow> window d = {lo..hi}"
  by auto

lemma in_window_iff:
  "(number_ge a (startAge d) \<and> number_le a (endAge d)) = (a \<in> window d)"
  by (cases "startAge d"; cases "endAge d") auto

lemma window_cover:
  "(\<Union>i \<in> {0..<12::nat}. {s + 10 * int i .. s + 10 * int i + 9}) = {s .. s + 119}"
proof (rule set_eqI)
  fix x :: int
  show "x \<in> (\<Union>i \<in> {0..<12::nat}. {s + 10 * int i .. s + 10 * int i + 9}) \<longleftrightarrow> x \<in> {s .. s + 119}"
  proof
    assume "x \<in> (\<Union>i \<in> {0..<12::nat}. {s + 10 * int i .. s + 10 * int i + 9})"
    then obtain i :: nat where "i < 12" "s + 10 * int i \<le> x" "x \<le> s + 10 * int i + 9"
      by auto
    then show "x \<in> {s .. s + 119}" by simp
  next
    assume h: "x \<in> {s .. s + 119}"
    define q where "q = (x - s) div 10"
    from h have q: "0 \<le> q" "q < 12" "s + 10 * q \<le> x" "x \<le> s + 10 * q + 9"
      unfolding q_def by simp_all presburger+
    define i where "i = nat q"
    from q have "i < 12" "s + 10 * int i \<le> x" "x \<le> s + 10 * int i + 9"
      by (simp_all add: i_def)
    then show "x \<in> (\<Union>i \<in> {0..<12::nat}. {s + 10 * int i .. s + 10 * int i + 9})"
      by auto
  qed
qed

lemma find_the_only:
  assumes "i < length xs" "P (xs ! i)" "\<And>j. j < length xs \<Longrightarrow> P (xs ! j) \<Longrightarrow> j = i"
  shows "find P xs = Some (xs ! i)"
proof -
  have "\<forall>j<i. \<not> P (xs ! j)"
    using assms(1,3) by (metis less_trans less_irrefl)
  with assms(1,2) show ?thesis
    unfolding find_Some_iff by blast
qed

lemma same_window:
  fixes s a :: int and i j :: nat
  assumes "s + 10 * int i \<le> a" "a \<le> s + 10 * int i + 9"
          "s + 10 * int j \<le> a" "a \<le> s + 10 * int j + 9"
  shows "j = i"
  using assms by presburger

lemma window_select:
  fixes ds :: "DecadalFortune list" and s a :: int
  assumes len: "length ds = 12"
    and nth: "\<And>i. i < 12 \<Longrightarrow>
      startAge (ds ! i) = Num (s + 10 * int i) \<and> endAge (ds ! i) = Num (s + 10 * int i + 9)"
  shows "s \<le> a \<and> a \<le> s + 119 \<longrightarrow>
          (\<exists>p. calc_currentDecadal a ds = Some p \<and> p \<in> set ds \<and> a \<in> window p
               \<and> (\<forall>q \<in> set ds. a \<in> window q \<longrightarrow> q = p))"
    and "a < s \<or> s + 119 < a \<longrightarrow> calc_currentDecadal a ds = None"
    and "endAge (last ds) = Num (s + 119)"
proof -
  let ?P = "\<lambda>d. a \<in> window d"
  have sel: "calc_currentDecadal a ds = find ?P ds"
    by (simp only: calc_currentDecadal_def in_window_iff)
  have win: "window (ds ! j) = {s + 10 * int j .. s + 10 * int j + 9}" if "j < 12" for j
    using nth [OF that] by (intro window_bounds) simp_all
  show "s \<le> a \<and> a \<le> s + 119 \<longrightarrow>
          (\<exists>p. calc_currentDecadal a ds = Some p \<and> p \<in> set ds \<and> a \<in> window p
               \<and> (\<forall>q \<in> set ds. a \<in> window q \<longrightarrow> q = p))"
  proof
    assume h: "s \<le> a \<and> a \<le> s + 119"
    define k where "k = (a - s) div 10"
    from h have k: "0 \<le> k" "k < 12" "s + 10 * k \<le> a" "a \<le> s + 10 * k + 9"
      unfolding k_def by simp_all presburger+
    define i where "i = nat k"
    from k have i: "i < 12" "s + 10 * int i \<le> a" "a \<le> s + 10 * int i + 9"
      by (simp_all add: i_def)
    have Pi: "?P (ds ! i)"
      unfolding win [OF i(1)] using i(2,3) by simp
    have only: "j = i" if "j < length ds" "?P (ds ! j)" for j
    proof -
      from that(1) len have j: "j < 12" by simp
      from that(2) have "s + 10 * int j \<le> a" "a \<le> s + 10 * int j + 9"
        unfolding win [OF j] by simp_all
      with i(2,3) show ?thesis by (rule same_window)
    qed
    have "i < length ds" using i(1) len by simp
    then have found: "find ?P ds = Some (ds ! i)"
      using Pi only by (rule find_the_only)
    have uniq: "\<forall>q \<in> set ds. ?P q \<longrightarrow> q = ds ! i"
    proof (intro ballI impI)
      fix q assume q: "q \<in> set ds" "?P q"
      then obtain j where "j < length ds" "q = ds ! j"
        by (metis in_set_conv_nth)
      with only [of j] q(2) show "q = ds ! i" by blast
    qed
    have mem: "ds ! i \<in> set ds"
      using \<open>i < length ds\<close> by (rule nth_mem)
    from found mem Pi uniq
    show "\<exists>p. calc_currentDecadal a ds = Some p \<and> p \<in> set ds \<and> a \<in> window p
               \<and> (\<forall>q \<in> set ds. a \<in> window q \<longrightarrow> q = p)"
      unfolding sel by blast
  qed
  show "a < s \<or> s + 119 < a \<longrightarrow> calc_currentDecadal a ds = None"
  proof
    assume h: "a < s \<or> s + 119 < a"
    have "\<not> ?P q" if "q \<in> set ds" for q
    proof -
      from that obtain j where j: "j < length ds" "q = ds ! j"
        by (metis in_set_conv_nth)
      then have "j < 12" using len by simp
      from win [OF this] j(2) have "window q = {s + 10 * int j .. s + 10 * int j + 9}"
        by simp
      with h \<open>j < 12\<close> show ?thesis by auto
    qed
    then show "calc_currentDecadal a ds = None"
      unfolding sel find_None_iff by blast
  qed
  have "ds \<noteq> []" using len by auto
  then have "last ds = ds ! 11"
    using len by (simp add: last_conv_nth)
  with nth [of 11] show "endAge (last ds) = Num (s + 119)" by simp
qed

lemma no_window_select:
  fixes ds :: "DecadalFortune list"
  assumes "\<And>q. q \<in> set ds \<Longrightarrow> endAge q = NaN"
  shows "calc_currentDecadal a ds = None" and "\<forall>q \<in> set ds. window q = {}"
proof -
  show w: "\<forall>q \<in> set ds. window q = {}"
    using assms by auto
  have "calc_currentDecadal a ds = find (\<lambda>d. a \<in> window d) ds"
    by (simp only: calc_currentDecadal_def in_window_iff)
  also have "\<dots> = None"
    unfolding find_None_iff using w by blast
  finally show "calc_currentDecadal a ds = None" .
qed

lemma find_never: "find (\<lambda>x. False) xs = None"
  by (induction xs) simp_all

lemma palaces_field: "palaces (calculateAstrolabe today astrolabe data) = calc_palaces astrolabe"
  by (simp add: calculateAstrolabe_def Let_def split: prod.split)

lemma example_branches:
  "map earthlyBranch (calc_palaces example_astrolabe) =
     [br_yin, br_mao, br_chen, br_si, br_wu, br_wei, br_shen, br_you, br_xu, br_hai, br_zi, br_chou]"
  by (simp add: calc_palaces_def calc_palace_def example_astrolabe_def example_palaces_def
        mk_palace_def)

lemma example_ages:
  "calculateAge example_today (year example_data) (month example_data) (day example_data) = (42, 43)"
  by (simp add: calculateAge_def example_today_def example_data_def)

lemma example_age: "age (calculateAstrolabe example_today example_astrolabe example_data) = 43"
  by (simp add: calculateAstrolabe_def Let_def example_ages)

lemma example_startAge: "getStartAge (e_fiveElementsClass example_astrolabe) = Number 3"
  by (simp add: getStartAge_def startAgeMap_def example_astrolabe_def)

section \<open>Brightness override: the claims\<close>

text \<open>
  C3. For every star name, every branch and every external brightness, present or
  absent: when the override table has an entry for the star and that entry has a grade
  for the branch, \<open>getStarBrightness\<close> returns that grade; when the table has no grade
  for the pair, it returns the external brightness unchanged. The Moon in branch Zi
  resolves to the grade Temple whatever the external brightness is.
\<close>

theorem getStarBrightness_spec:
  "((s, t) \<in> set NI_SHI_BRIGHTNESS_OVERRIDE \<and> (b, g) \<in> set t \<longrightarrow>
      getStarBrightness s b ext = Some g)
   \<and> ((\<forall>t g. (s, t) \<in> set NI_SHI_BRIGHTNESS_OVERRIDE \<longrightarrow> (b, g) \<notin> set t) \<longrightarrow>
      getStarBrightness s b ext = ext)
   \<and> getStarBrightness taiyin br_zi ext = Some gr_miao"
proof (intro conjI impI)
  assume h: "(s, t) \<in> set NI_SHI_BRIGHTNESS_OVERRIDE \<and> (b, g) \<in> set t"
  then have 1: "map_of NI_SHI_BRIGHTNESS_OVERRIDE s = Some t"
    using override_keys_distinct by simp
  from h override_inner [of s t] have 2: "map_of t b = Some g" and 3: "g \<noteq> []"
    by auto
  show "getStarBrightness s b ext = Some g"
    by (simp add: getStarBrightness_def 1 2 3)
next
  assume h: "\<forall>t g. (s, t) \<in> set NI_SHI_BRIGHTNESS_OVERRIDE \<longrightarrow> (b, g) \<notin> set t"
  show "getStarBrightness s b ext = ext"
  proof (cases "map_of NI_SHI_BRIGHTNESS_OVERRIDE s")
    case None
    then show ?thesis by (simp add: getStarBrightness_def)
  next
    case (Some t)
    then have "(s, t) \<in> set NI_SHI_BRIGHTNESS_OVERRIDE"
      by (rule map_of_SomeD)
    with h have "\<forall>g. (b, g) \<notin> set t" by blast
    then have "map_of t b = None"
      by (metis map_of_SomeD not_Some_eq)
    with Some show ?thesis by (simp add: getStarBrightness_def)
  qed
next
  show "getStarBrightness taiyin br_zi ext = Some gr_miao"
    by (simp add: getStarBrightness_def NI_SHI_BRIGHTNESS_OVERRIDE_def all_branches_def)
qed

text \<open>
  At concrete inputs: the Sun in branch Wu takes the table's grade; the Sun under a
  symbol that is no branch, and the star Zi Wei (not in the table), keep the external
  value; the Moon in Zi is Temple although the engine said otherwise.
\<close>

theorem getStarBrightness_spec_witness:
  "getStarBrightness taiyang br_wu (Some gr_ping) = Some gr_miao
   \<and> getStarBrightness taiyang [0x58] (Some gr_ping) = Some gr_ping
   \<and> getStarBrightness [0x7D2B, 0x5FAE] br_wu None = None
   \<and> getStarBrightness taiyin br_zi (Some gr_bu) = Some gr_miao"
proof -
  let ?t = "all_branches gr_bu gr_bu gr_ping gr_li gr_de gr_wang
                         gr_miao gr_miao gr_wang gr_de gr_li gr_ping"
  have a: "(taiyang, ?t) \<in> set NI_SHI_BRIGHTNESS_OVERRIDE \<and> (br_wu, gr_miao) \<in> set ?t"
    by (simp add: NI_SHI_BRIGHTNESS_OVERRIDE_def all_branches_def)
  have b: "\<forall>t g. (taiyang, t) \<in> set NI_SHI_BRIGHTNESS_OVERRIDE \<longrightarrow> ([0x58], g) \<notin> set t"
    by (simp add: NI_SHI_BRIGHTNESS_OVERRIDE_def all_branches_def)
  have c: "\<forall>t g. ([0x7D2B, 0x5FAE], t) \<in> set NI_SHI_BRIGHTNESS_OVERRIDE \<longrightarrow> (br_wu, g) \<notin> set t"
    by (simp add: NI_SHI_BRIGHTNESS_OVERRIDE_def)
  show ?thesis
    using getStarBrightness_spec [of taiyang ?t br_wu gr_miao "Some gr_ping"] a
          getStarBrightness_spec [of taiyang _ "[0x58]" _ "Some gr_ping"] b
          getStarBrightness_spec [of "[0x7D2B, 0x5FAE]" _ br_wu _ None] c
          getStarBrightness_spec [of _ _ _ _ "Some gr_bu"]
    by blast
qed

text \<open>
  C4, as claimed: every star of every palace of the result, adjective stars included,
  has the brightness \<open>getStarBrightness\<close> gives for its name, the palace's branch and
  the engine's brightness. This fails for adjective stars: in the chart with the single
  palace on Zi, the adjective star named as the Moon has no brightness in the result
  although the table gives Temple, and Hong Luan loses the brightness the engine gave.
\<close>

theorem adjective_brightness_counterexample:
  "brightness (adjectiveStars (palaces (calculateAstrolabe example_today adjective_example example_data) ! 0) ! 0)
     \<noteq> getStarBrightness (star_name (adjectiveStars (e_palaces adjective_example ! 0) ! 0))
         (earthlyBranch (e_palaces adjective_example ! 0))
         (brightness (adjectiveStars (e_palaces adjective_example ! 0) ! 0))
   \<and> brightness (adjectiveStars (palaces (calculateAstrolabe example_today adjective_example example_data) ! 0) ! 1)
     \<noteq> getStarBrightness (star_name (adjectiveStars (e_palaces adjective_example ! 0) ! 1))
         (earthlyBranch (e_palaces adjective_example ! 0))
         (brightness (adjectiveStars (e_palaces adjective_example ! 0) ! 1))"
  by (simp add: palaces_field calc_palaces_def calc_palace_def adjective_example_def mk_palace_def
        mk_star_def nameAndType_def getStarBrightness_def NI_SHI_BRIGHTNESS_OVERRIDE_def
        all_branches_def)

text \<open>
  C4, amended. The result has one palace for each palace of the engine, in the same
  order and on the same branch; each major star and each minor star keeps its name and
  has the brightness \<open>getStarBrightness\<close> gives for its name, the palace's branch and
  the engine's brightness; each adjective star keeps its name and its type and has
  neither brightness nor transformation tag.
\<close>

theorem star_brightness_spec:
  "length (palaces (calculateAstrolabe today astrolabe data)) = length (e_palaces astrolabe)
   \<and> (\<forall>i < length (e_palaces astrolabe).
        (let p = e_palaces astrolabe ! i;
             q = palaces (calculateAstrolabe today astrolabe data) ! i
         in name q = name p \<and> earthlyBranch q = earthlyBranch p
            \<and> map star_name (majorStars q) = map star_name (majorStars p)
            \<and> map brightness (majorStars q)
                = map (\<lambda>s. getStarBrightness (star_name s) (earthlyBranch p) (brightness s)) (majorStars p)
            \<and> map star_name (minorStars q) = map star_name (minorStars p)
            \<and> map brightness (minorStars q)
                = map (\<lambda>s. getStarBrightness (star_name s) (earthlyBranch p) (brightness s)) (minorStars p)
            \<and> map star_name (adjectiveStars q) = map star_name (adjectiveStars p)
            \<and> map star_type (adjectiveStars q) = map star_type (adjectiveStars p)
            \<and> map brightness (adjectiveStars q) = map (\<lambda>s. None) (adjectiveStars p)
            \<and> map mutagen (adjectiveStars q) = map (\<lambda>s. None) (adjectiveStars p)))"
  by (simp add: palaces_field calc_palaces_def calc_palace_def Let_def overriddenStar_def
        nameAndType_def comp_def)

text \<open>
  On the example chart: the Moon on Zi and Lu Cun on Yin are Temple, and the adjective
  stars have no brightness.
\<close>

theorem star_brightness_spec_witness:
  "map brightness (majorStars (palaces (calculateAstrolabe example_today example_astrolabe example_data) ! 10))
     = [Some gr_miao]
   \<and> map brightness (minorStars (palaces (calculateAstrolabe example_today example_astrolabe example_data) ! 0))
     = [Some gr_miao]
   \<and> map brightness (adjectiveStars (palaces (calculateAstrolabe example_today example_astrolabe example_data) ! 1))
     = [None]
   \<and> map brightness (adjectiveStars (palaces (calculateAstrolabe example_today adjective_example example_data) ! 0))
     = [None, None]"
proof -
  have n: "length (e_palaces example_astrolabe) = 12" "length (e_palaces adjective_example) = 1"
    by (simp_all add: example_astrolabe_def example_palaces_def adjective_example_def)
  have i: "(10::nat) < 12" "(0::nat) < 12" "(1::nat) < 12" "(0::nat) < 1"
    by simp_all
  note t = star_brightness_spec [where today = example_today and astrolabe = example_astrolabe
      and data = example_data, unfolded n Let_def, THEN conjunct2, rule_format]
  note u = star_brightness_spec [where today = example_today and astrolabe = adjective_example
      and data = example_data, unfolded n Let_def, THEN conjunct2, rule_format]
  have e: "e_palaces example_astrolabe ! 10
        = mk_palace tianzhai_gong st_bing br_zi [mk_star taiyin ty_major (Some gr_wang)] [] []"
      "e_palaces example_astrolabe ! 0
        = mk_palace jiaoyou_gong st_bing br_yin [] [mk_star lucun ty_lucun None] []"
      "e_palaces example_astrolabe ! 1
        = mk_palace qianyi_gong st_ding br_mao [] [] [mk_star hongluan ty_adjective None]"
      "e_palaces adjective_example ! 0
        = mk_palace tianzhai_gong st_bing br_zi [] []
            [mk_star taiyin ty_adjective None, mk_star hongluan ty_adjective (Some gr_wang)]"
    by (simp_all add: example_astrolabe_def example_palaces_def adjective_example_def)
  have g: "getStarBrightness taiyin br_zi (Some gr_wang) = Some gr_miao"
      "getStarBrightness lucun br_yin None = Some gr_miao"
    by (simp_all add: getStarBrightness_def NI_SHI_BRIGHTNESS_OVERRIDE_def all_branches_def)
  from t [OF i(1), unfolded e] t [OF i(2), unfolded e] t [OF i(3), unfolded e]
       u [OF i(4), unfolded e]
  show ?thesis
    by (simp add: mk_palace_def mk_star_def g)
qed

section \<open>Ages: the claims\<close>

text \<open>
  C7. For every birth date and every day taken as today, the calendar age
  \<open>calculateAge\<close> returns is the difference of the years, less one when today's (month,
  day) is lexicographically below the birth (month, day), and never below 0; the
  traditional age is that difference plus one and never below 1, which is the returned
  calendar age plus one. For a birth date equal to today the ages are 0 and 1.
\<close>

theorem calculateAge_spec:
  "fst (calculateAge today y m d) =
     max 0 (currentYear today - y
            - (if (currentMonth today, currentDay today) < (m, d) then 1 else 0))
   \<and> snd (calculateAge today y m d) =
     max 1 (currentYear today - y
            - (if (currentMonth today, currentDay today) < (m, d) then 1 else 0) + 1)
   \<and> snd (calculateAge today y m d) = fst (calculateAge today y m d) + 1
   \<and> calculateAge today (currentYear today) (currentMonth today) (currentDay today) = (0, 1)"
  by (auto simp add: calculateAge_def Let_def)

theorem calculateAge_spec_witness:
  "calculateAge \<lparr>currentYear = 2026, currentMonth = 11, currentDay = 2\<rparr> 1990 12 25 = (35, 36)
   \<and> calculateAge \<lparr>currentYear = 2026, currentMonth = 11, currentDay = 2\<rparr> 2026 11 2 = (0, 1)"
  using calculateAge_spec [of "\<lparr>currentYear = 2026, currentMonth = 11, currentDay = 2\<rparr>" 1990 12 25]
        calculateAge_spec [of "\<lparr>currentYear = 2026, currentMonth = 11, currentDay = 2\<rparr>" 2026 11 2]
  by (simp add: prod_eq_iff)

text \<open>
  C10. The claim is that every class label other than the five known ones has the
  start age 5 and so the age windows of Earth-5. The table is an object literal, and
  the label \<open>constructor\<close> reads the member that every object inherits: the start age
  is that member and not 5, the first period starts at a string, the text of the member
  followed by \<open>0\<close>, and ends at \<open>NaN\<close>, where Earth-5 gives 5 and 14, and no period
  is current at any age.
\<close>

theorem getStartAge_inherited_member:
  "getStartAge key_constructor = Member key_constructor
   \<and> startAge (calc_decadalFortunes
         (example_astrolabe\<lparr>e_fiveElementsClass := key_constructor\<rparr>) example_data ! 0)
       = Text key_constructor 0
   \<and> endAge (calc_decadalFortunes
         (example_astrolabe\<lparr>e_fiveElementsClass := key_constructor\<rparr>) example_data ! 0)
       = NaN
   \<and> startAge (calc_decadalFortunes
         (example_astrolabe\<lparr>e_fiveElementsClass := tu_wu_ju\<rparr>) example_data ! 0)
       = Num 5
   \<and> endAge (calc_decadalFortunes
         (example_astrolabe\<lparr>e_fiveElementsClass := tu_wu_ju\<rparr>) example_data ! 0)
       = Num 14
   \<and> currentDecadal (calculateAstrolabe example_today
         (example_astrolabe\<lparr>e_fiveElementsClass := key_constructor\<rparr>) example_data)
       = None"
proof -
  let ?a = "example_astrolabe\<lparr>e_fiveElementsClass := key_constructor\<rparr>"
  have m: "getStartAge key_constructor = Member key_constructor"
    by (simp add: getStartAge_def startAgeMap_def objectPrototypeMembers_def)
  have e: "getStartAge tu_wu_ju = Number 5"
    by (simp add: getStartAge_def startAgeMap_def)
  have nan: "endAge q = NaN" if "q \<in> set (calc_decadalFortunes ?a example_data)" for q
    using that by (auto simp add: calc_decadalFortunes_eq m decadalFortune_def Let_def)
  have "currentDecadal (calculateAstrolabe example_today ?a example_data)
      = calc_currentDecadal (age (calculateAstrolabe example_today ?a example_data))
          (calc_decadalFortunes ?a example_data)"
    by (simp add: calculateAstrolabe_def Let_def split: prod.split)
  also have "\<dots> = None"
    using nan by (rule no_window_select(1))
  finally show ?thesis
    by (simp add: calc_decadalFortunes_eq m e decadal_nth decadal_nth_member del: upt.simps)
       (simp add: decadalFortune_def Let_def)
qed

section \<open>Decadal fortunes: the claims\<close>

text \<open>
  C1. The palace names of the twelve decadal fortunes of the result are the forward
  order exactly when the birth year is a yang-stem year and the subject is male, or the
  birth year is not a yang-stem year and the subject is female; otherwise they are the
  reverse order, which is the forward order mirrored around the Life Palace. The
  birth-year stem is the first character of the engine's date string, and the year is
  yang when that character is one of the five yang stems. For class Wood-3 and a male
  subject, the second period has the second name of the forward order when the stem is
  yang, and the second name of the reverse order when the stem is one of the five yin
  stems.
\<close>

theorem decadal_direction:
  "map palaceName (decadalFortunes (calculateAstrolabe today astrolabe data)) =
     (if (isYangYear astrolabe \<and> gender data = Male) \<or> (\<not> isYangYear astrolabe \<and> gender data = Female)
      then palaceOrder else palaceOrderReverse)
   \<and> palaceOrderReverse = hd palaceOrder # rev (tl palaceOrder)
   \<and> (e_chineseDate astrolabe = Some (c # rest) \<longrightarrow>
        isYangYear astrolabe = ([c] \<in> {st_jia, st_bing, st_wu, st_geng, st_ren}))
   \<and> (e_fiveElementsClass astrolabe = mu_san_ju \<and> e_chineseDate astrolabe = Some (c # rest)
        \<and> [c] \<in> {st_jia, st_bing, st_wu, st_geng, st_ren} \<and> gender data = Male \<longrightarrow>
        palaceName (decadalFortunes (calculateAstrolabe today astrolabe data) ! 1) = palaceOrder ! 1)
   \<and> (e_fiveElementsClass astrolabe = mu_san_ju \<and> e_chineseDate astrolabe = Some (c # rest)
        \<and> [c] \<in> {st_yi, st_ding, st_ji, st_xin, st_gui} \<and> gender data = Male \<longrightarrow>
        palaceName (decadalFortunes (calculateAstrolabe today astrolabe data) ! 1)
          = palaceOrderReverse ! 1)
   \<and> palaceOrder ! 1 = fumu_gong \<and> palaceOrderReverse ! 1 = xiongdi_gong"
proof -
  let ?ds = "decadalFortunes (calculateAstrolabe today astrolabe data)"
  have snd_names: "palaceOrder ! 1 = fumu_gong \<and> palaceOrderReverse ! 1 = xiongdi_gong"
    by (simp add: palaceOrder_def palaceOrderReverse_def)
  have names: "map palaceName ?ds = orderToUse astrolabe data"
    by (simp add: decadalFortunes_field calc_decadalFortunes_eq palaceName_decadal
          length_orderToUse del: map_map)
  have fwd: "isForward astrolabe data =
      ((isYangYear astrolabe \<and> gender data = Male) \<or> (\<not> isYangYear astrolabe \<and> gender data = Female))"
    by (cases "gender data") (simp_all add: isForward_def isMale_def)
  have len: "length ?ds = 12"
    by (simp add: decadalFortunes_field calc_decadalFortunes_eq)
  have second: "palaceName (?ds ! 1) = orderToUse astrolabe data ! 1"
    using names len by (metis nth_map one_less_numeral_iff semiring_norm(76))
  have yang: "e_chineseDate astrolabe = Some (c # rest) \<Longrightarrow>
      isYangYear astrolabe = ([c] \<in> {st_jia, st_bing, st_wu, st_geng, st_ren})"
    by (simp add: isYangYear_def yearStem_first yangStems_def)
  have rev: "palaceOrderReverse = hd palaceOrder # rev (tl palaceOrder)"
    by (simp add: palaceOrder_def palaceOrderReverse_def)
  have a: "e_chineseDate astrolabe = Some (c # rest)
        \<and> [c] \<in> {st_jia, st_bing, st_wu, st_geng, st_ren} \<and> gender data = Male \<Longrightarrow>
      orderToUse astrolabe data = palaceOrder"
    using yang by (simp add: orderToUse_def fwd)
  have b: "e_chineseDate astrolabe = Some (c # rest)
        \<and> [c] \<in> {st_yi, st_ding, st_ji, st_xin, st_gui} \<and> gender data = Male \<Longrightarrow>
      orderToUse astrolabe data = palaceOrderReverse"
    using yang by (auto simp add: orderToUse_def fwd)
  show ?thesis
    using names fwd second yang rev a b snd_names by (simp add: orderToUse_def)
qed

text \<open>
  On the example chart (stem Jia, male, Wood-3) the second period is the Parents Palace;
  with stem Yi it is the Siblings Palace; for a female subject the order is the reverse
  one.
\<close>

theorem decadal_direction_witness:
  "palaceName (decadalFortunes (calculateAstrolabe example_today example_astrolabe example_data) ! 1)
     = fumu_gong
   \<and> palaceName (decadalFortunes (calculateAstrolabe example_today
         (example_astrolabe\<lparr>e_chineseDate := Some (st_yi @ br_chou)\<rparr>) example_data) ! 1)
     = xiongdi_gong
   \<and> map palaceName (decadalFortunes (calculateAstrolabe example_today example_astrolabe
         (example_data\<lparr>gender := Female\<rparr>))) = palaceOrderReverse"
proof -
  have 1: "e_fiveElementsClass example_astrolabe = mu_san_ju
      \<and> e_chineseDate example_astrolabe = Some (0x7532 # [0x5B50, 0x20, 0x4E01, 0x536F])
      \<and> [0x7532] \<in> {st_jia, st_bing, st_wu, st_geng, st_ren} \<and> gender example_data = Male"
    by (simp add: example_astrolabe_def example_data_def)
  have 2: "e_fiveElementsClass (example_astrolabe\<lparr>e_chineseDate := Some (st_yi @ br_chou)\<rparr>) = mu_san_ju
      \<and> e_chineseDate (example_astrolabe\<lparr>e_chineseDate := Some (st_yi @ br_chou)\<rparr>) = Some (0x4E59 # br_chou)
      \<and> [0x4E59] \<in> {st_yi, st_ding, st_ji, st_xin, st_gui} \<and> gender example_data = Male"
    by (simp add: example_astrolabe_def example_data_def)
  have 3: "isYangYear example_astrolabe \<and> gender (example_data\<lparr>gender := Female\<rparr>) = Female"
    by (simp add: isYangYear_def yearStem_def charAt_def or_str_def yangStems_def example_astrolabe_def)
  have 4: "palaceOrder ! 1 = fumu_gong \<and> palaceOrderReverse ! 1 = xiongdi_gong"
    by (simp add: palaceOrder_def palaceOrderReverse_def)
  show ?thesis
    using decadal_direction [where astrolabe = example_astrolabe and data = example_data
            and today = example_today and c = "0x7532" and rest = "[0x5B50, 0x20, 0x4E01, 0x536F]"]
          decadal_direction [where astrolabe = "example_astrolabe\<lparr>e_chineseDate := Some (st_yi @ br_chou)\<rparr>"
            and data = example_data and today = example_today and c = "0x4E59" and rest = br_chou]
          decadal_direction [where astrolabe = example_astrolabe
            and data = "example_data\<lparr>gender := Female\<rparr>" and today = example_today]
          1 2 3 4
    by simp
qed

text \<open>
  C2. For every direction and palace list the result has exactly twelve decadal
  fortunes, and every class label that names no inherited member, so each of the five
  classes, has a number from 2 to 6 as start age. With the start age a number \<open>s\<close>:
  period \<open>k\<close> (from 1 to 12) has index \<open>k\<close> and the inclusive window from
  \<open>s + 10 (k - 1)\<close> to \<open>s + 10 k - 1\<close>, ten years wide; each window starts the year
  after the previous one ends, no two windows overlap, and together they cover the ages
  from \<open>s\<close> to \<open>s + 119\<close>. For class Water-2 the first window is 2 to 11 and the
  twelfth is 112 to 121.
\<close>

theorem decadal_windows:
  "length (decadalFortunes (calculateAstrolabe today astrolabe data)) = 12
   \<and> (e_fiveElementsClass astrolabe \<notin> set objectPrototypeMembers \<longrightarrow>
        getStartAge (e_fiveElementsClass astrolabe) \<in> Number ` {2, 3, 4, 5, 6})
   \<and> (getStartAge (e_fiveElementsClass astrolabe) = Number s \<longrightarrow>
        (let ds = decadalFortunes (calculateAstrolabe today astrolabe data)
         in (\<forall>k \<in> {1..12}. index (ds ! (k - 1)) = int k
                \<and> startAge (ds ! (k - 1)) = Num (s + 10 * (int k - 1))
                \<and> endAge (ds ! (k - 1)) = Num (s + 10 * int k - 1)
                \<and> card (window (ds ! (k - 1))) = 10)
            \<and> (\<forall>k \<in> {1..11}. \<exists>e. endAge (ds ! (k - 1)) = Num e \<and> startAge (ds ! k) = Num (e + 1))
            \<and> (\<forall>i < 12. \<forall>j < 12. i \<noteq> j \<longrightarrow> window (ds ! i) \<inter> window (ds ! j) = {})
            \<and> (\<Union>p \<in> set ds. window p) = {s .. s + 119}
            \<and> s \<in> {2, 3, 4, 5, 6}))
   \<and> (e_fiveElementsClass astrolabe = shui_er_ju \<longrightarrow>
        (let ds = decadalFortunes (calculateAstrolabe today astrolabe data)
         in startAge (ds ! 0) = Num 2 \<and> endAge (ds ! 0) = Num 11
            \<and> startAge (ds ! 11) = Num 112 \<and> endAge (ds ! 11) = Num 121))"
proof -
  let ?out = "decadalFortunes (calculateAstrolabe today astrolabe data)"
  have len: "length ?out = 12"
    by (simp add: decadalFortunes_field calc_decadalFortunes_eq)
  have range: "e_fiveElementsClass astrolabe \<notin> set objectPrototypeMembers \<longrightarrow>
        getStartAge (e_fiveElementsClass astrolabe) \<in> Number ` {2, 3, 4, 5, 6}"
    using getStartAge_range by blast
  have body: "(\<forall>k \<in> {1..12}. index (?out ! (k - 1)) = int k
                \<and> startAge (?out ! (k - 1)) = Num (t + 10 * (int k - 1))
                \<and> endAge (?out ! (k - 1)) = Num (t + 10 * int k - 1)
                \<and> card (window (?out ! (k - 1))) = 10)
            \<and> (\<forall>k \<in> {1..11}. \<exists>e. endAge (?out ! (k - 1)) = Num e \<and> startAge (?out ! k) = Num (e + 1))
            \<and> (\<forall>i < 12. \<forall>j < 12. i \<noteq> j \<longrightarrow> window (?out ! i) \<inter> window (?out ! j) = {})
            \<and> (\<Union>p \<in> set ?out. window p) = {t .. t + 119}
            \<and> t \<in> {2, 3, 4, 5, 6}"
    if t: "getStartAge (e_fiveElementsClass astrolabe) = Number t" for t
  proof -
    let ?f = "decadalFortune (orderToUse astrolabe data) (calc_palaces astrolabe) (Number t)"
    let ?ds = "map ?f [0..<12]"
    have ds: "?out = ?ds"
      by (simp add: decadalFortunes_field calc_decadalFortunes_eq t)
    have nth: "\<And>i. i < 12 \<Longrightarrow> index (?ds ! i) = int i + 1
        \<and> startAge (?ds ! i) = Num (t + 10 * int i) \<and> endAge (?ds ! i) = Num (t + 10 * int i + 9)"
      by (rule decadal_nth)
    have win: "window (?ds ! i) = {t + 10 * int i .. t + 10 * int i + 9}" if "i < 12" for i
      using nth [OF that] by (intro window_bounds) (simp_all del: nth_map nth_upt)
    have 2: "\<forall>k \<in> {1..12}. index (?ds ! (k - 1)) = int k
               \<and> startAge (?ds ! (k - 1)) = Num (t + 10 * (int k - 1))
               \<and> endAge (?ds ! (k - 1)) = Num (t + 10 * int k - 1)
               \<and> card (window (?ds ! (k - 1))) = 10"
    proof
      fix k :: nat assume "k \<in> {1..12}"
      then have k: "k - 1 < 12" "int (k - 1) = int k - 1" by auto
      have "card (window (?ds ! (k - 1))) = 10"
        unfolding win [OF k(1)] by simp
      with nth [OF k(1)] k(2) show "index (?ds ! (k - 1)) = int k
               \<and> startAge (?ds ! (k - 1)) = Num (t + 10 * (int k - 1))
               \<and> endAge (?ds ! (k - 1)) = Num (t + 10 * int k - 1)
               \<and> card (window (?ds ! (k - 1))) = 10"
        by (simp del: nth_map nth_upt)
    qed
    have 3: "\<forall>k \<in> {1..11}. \<exists>e. endAge (?ds ! (k - 1)) = Num e \<and> startAge (?ds ! k) = Num (e + 1)"
    proof
      fix k :: nat assume "k \<in> {1..11}"
      then have k: "k < 12" "k - 1 < 12" "int (k - 1) = int k - 1" by auto
      from nth [OF k(1)] nth [OF k(2)] k(3)
      show "\<exists>e. endAge (?ds ! (k - 1)) = Num e \<and> startAge (?ds ! k) = Num (e + 1)"
        by (simp del: nth_map nth_upt)
    qed
    have 4: "\<forall>i < 12. \<forall>j < 12. i \<noteq> j \<longrightarrow> window (?ds ! i) \<inter> window (?ds ! j) = {}"
    proof (intro allI impI)
      fix i j :: nat assume ij: "i < 12" "j < 12" "i \<noteq> j"
      show "window (?ds ! i) \<inter> window (?ds ! j) = {}"
        unfolding win [OF ij(1)] win [OF ij(2)] using ij(3) by auto
    qed
    have "(\<Union>p \<in> set ?ds. window p) = (\<Union>i \<in> {0..<12::nat}. window (?ds ! i))"
      using UN_set_nth [of "\<lambda>d. window d" ?ds] by (simp only: length_map length_upt minus_nat.diff_0)
    also have "\<dots> = (\<Union>i \<in> {0..<12::nat}. {t + 10 * int i .. t + 10 * int i + 9})"
      using win by (intro SUP_cong) simp_all
    finally have 5: "(\<Union>p \<in> set ?ds. window p) = {t .. t + 119}"
      by (simp only: window_cover)
    have 6: "t \<in> {2, 3, 4, 5, 6}"
      using t by (rule getStartAge_Number)
    show ?thesis
      unfolding ds using 2 3 4 5 6 by blast
  qed
  have water: "startAge (?out ! 0) = Num 2 \<and> endAge (?out ! 0) = Num 11
            \<and> startAge (?out ! 11) = Num 112 \<and> endAge (?out ! 11) = Num 121"
    if w: "e_fiveElementsClass astrolabe = shui_er_ju"
  proof -
    have t: "getStartAge (e_fiveElementsClass astrolabe) = Number 2"
      using w getStartAge_known by simp
    have k: "(1::nat) \<in> {1..12}" "(12::nat) \<in> {1..12}" by simp_all
    note bt = body [OF t, THEN conjunct1]
    from bspec [OF bt k(1)] bspec [OF bt k(2)] show ?thesis by simp
  qed
  have b: "getStartAge (e_fiveElementsClass astrolabe) = Number s \<longrightarrow>
            (\<forall>k \<in> {1..12}. index (?out ! (k - 1)) = int k
                \<and> startAge (?out ! (k - 1)) = Num (s + 10 * (int k - 1))
                \<and> endAge (?out ! (k - 1)) = Num (s + 10 * int k - 1)
                \<and> card (window (?out ! (k - 1))) = 10)
            \<and> (\<forall>k \<in> {1..11}. \<exists>e. endAge (?out ! (k - 1)) = Num e \<and> startAge (?out ! k) = Num (e + 1))
            \<and> (\<forall>i < 12. \<forall>j < 12. i \<noteq> j \<longrightarrow> window (?out ! i) \<inter> window (?out ! j) = {})
            \<and> (\<Union>p \<in> set ?out. window p) = {s .. s + 119}
            \<and> s \<in> {2, 3, 4, 5, 6}"
    using body [of s] by (rule impI)
  have w: "e_fiveElementsClass astrolabe = shui_er_ju \<longrightarrow>
            startAge (?out ! 0) = Num 2 \<and> endAge (?out ! 0) = Num 11
            \<and> startAge (?out ! 11) = Num 112 \<and> endAge (?out ! 11) = Num 121"
    using water by (rule impI)
  show ?thesis
    unfolding Let_def by (intro conjI len range b w)
qed

text \<open>
  On the example chart with class Water-2: twelve periods, the first from 2 to 11, the
  twelfth from 112 to 121; with its own class Wood-3 the fifth period is 43 to 52.
\<close>

theorem decadal_windows_witness:
  "length (decadalFortunes (calculateAstrolabe example_today
       (example_astrolabe\<lparr>e_fiveElementsClass := shui_er_ju\<rparr>) example_data)) = 12
   \<and> startAge (decadalFortunes (calculateAstrolabe example_today
       (example_astrolabe\<lparr>e_fiveElementsClass := shui_er_ju\<rparr>) example_data) ! 0) = Num 2
   \<and> endAge (decadalFortunes (calculateAstrolabe example_today
       (example_astrolabe\<lparr>e_fiveElementsClass := shui_er_ju\<rparr>) example_data) ! 0) = Num 11
   \<and> startAge (decadalFortunes (calculateAstrolabe example_today
       (example_astrolabe\<lparr>e_fiveElementsClass := shui_er_ju\<rparr>) example_data) ! 11) = Num 112
   \<and> endAge (decadalFortunes (calculateAstrolabe example_today
       (example_astrolabe\<lparr>e_fiveElementsClass := shui_er_ju\<rparr>) example_data) ! 11) = Num 121
   \<and> startAge (decadalFortunes (calculateAstrolabe example_today example_astrolabe example_data) ! 4)
       = Num 43
   \<and> endAge (decadalFortunes (calculateAstrolabe example_today example_astrolabe example_data) ! 4)
       = Num 52
   \<and> getStartAge (e_fiveElementsClass example_astrolabe) = Number 3"
proof -
  have c: "e_fiveElementsClass (example_astrolabe\<lparr>e_fiveElementsClass := shui_er_ju\<rparr>) = shui_er_ju"
    by simp
  have m: "e_fiveElementsClass example_astrolabe \<notin> set objectPrototypeMembers"
    by (simp add: example_astrolabe_def objectPrototypeMembers_def)
  have k: "(5::nat) \<in> {1..12}" by simp
  note w = decadal_windows [where today = example_today and data = example_data
      and astrolabe = "example_astrolabe\<lparr>e_fiveElementsClass := shui_er_ju\<rparr>", unfolded Let_def]
  note e = decadal_windows [where today = example_today and data = example_data
      and astrolabe = example_astrolabe and s = 3, unfolded Let_def]
  note e3 = e [THEN conjunct2, THEN conjunct2, THEN conjunct1, THEN mp, OF example_startAge,
      THEN conjunct1]
  note w1 = w [THEN conjunct1]
  note w4 = w [THEN conjunct2, THEN conjunct2, THEN conjunct2, THEN mp, OF c]
  from bspec [OF e3 k] w1 w4 example_startAge show ?thesis
    by simp
qed

text \<open>
  C5. For the twelve decadal fortunes generated for any chart and for every age. With
  the start age of the class a number \<open>s\<close> (as it is for every class label that names
  no inherited member): when the age lies between \<open>s\<close> and the end of the last period,
  \<open>s + 119\<close>, the selection returns a period of the sequence whose window contains the
  age, and it is the only such period; when the age is below \<open>s\<close> or beyond the end
  of the last period, the selection returns none. With the start age an inherited
  member no period has a window and the selection returns none. The current decadal
  fortune of the result is this selection for the traditional age of the result.
\<close>

theorem currentDecadal_spec:
  "(e_fiveElementsClass astrolabe \<notin> set objectPrototypeMembers \<longrightarrow>
        getStartAge (e_fiveElementsClass astrolabe) \<in> Number ` {2, 3, 4, 5, 6})
   \<and> (getStartAge (e_fiveElementsClass astrolabe) = Number s \<longrightarrow>
        (let ds = calc_decadalFortunes astrolabe data
         in (s \<le> a \<and> a \<le> s + 119 \<longrightarrow>
               (\<exists>p. calc_currentDecadal a ds = Some p \<and> p \<in> set ds \<and> a \<in> window p
                    \<and> (\<forall>q \<in> set ds. a \<in> window q \<longrightarrow> q = p)))
            \<and> (a < s \<or> s + 119 < a \<longrightarrow> calc_currentDecadal a ds = None)
            \<and> endAge (last ds) = Num (s + 119)))
   \<and> (getStartAge (e_fiveElementsClass astrolabe) = Member k \<longrightarrow>
        (let ds = calc_decadalFortunes astrolabe data
         in calc_currentDecadal a ds = None \<and> (\<forall>q \<in> set ds. window q = {})))
   \<and> decadalFortunes (calculateAstrolabe today astrolabe data) = calc_decadalFortunes astrolabe data
   \<and> currentDecadal (calculateAstrolabe today astrolabe data)
       = calc_currentDecadal (age (calculateAstrolabe today astrolabe data))
           (calc_decadalFortunes astrolabe data)"
proof -
  let ?ds = "calc_decadalFortunes astrolabe data"
  have len: "length ?ds = 12"
    by (simp add: calc_decadalFortunes_eq)
  have range: "e_fiveElementsClass astrolabe \<notin> set objectPrototypeMembers \<longrightarrow>
        getStartAge (e_fiveElementsClass astrolabe) \<in> Number ` {2, 3, 4, 5, 6}"
    using getStartAge_range by blast
  have num: "(s \<le> a \<and> a \<le> s + 119 \<longrightarrow>
               (\<exists>p. calc_currentDecadal a ?ds = Some p \<and> p \<in> set ?ds \<and> a \<in> window p
                    \<and> (\<forall>q \<in> set ?ds. a \<in> window q \<longrightarrow> q = p)))
            \<and> (a < s \<or> s + 119 < a \<longrightarrow> calc_currentDecadal a ?ds = None)
            \<and> endAge (last ?ds) = Num (s + 119)"
    if t: "getStartAge (e_fiveElementsClass astrolabe) = Number s"
  proof -
    have nth: "startAge (?ds ! i) = Num (s + 10 * int i) \<and> endAge (?ds ! i) = Num (s + 10 * int i + 9)"
      if "i < 12" for i
      by (simp only: calc_decadalFortunes_eq t decadal_nth [OF that])
    note w = window_select [OF len nth]
    show ?thesis
      by (intro conjI w(1) w(2) w(3))
  qed
  have mem: "calc_currentDecadal a ?ds = None \<and> (\<forall>q \<in> set ?ds. window q = {})"
    if t: "getStartAge (e_fiveElementsClass astrolabe) = Member k"
  proof -
    have nan: "endAge q = NaN" if "q \<in> set ?ds" for q
      using that by (auto simp add: calc_decadalFortunes_eq t decadalFortune_def Let_def)
    from no_window_select [OF nan] show ?thesis
      by blast
  qed
  have out: "decadalFortunes (calculateAstrolabe today astrolabe data) = ?ds"
       "currentDecadal (calculateAstrolabe today astrolabe data)
       = calc_currentDecadal (age (calculateAstrolabe today astrolabe data)) ?ds"
    by (simp_all add: calculateAstrolabe_def Let_def split: prod.split)
  show ?thesis
    unfolding Let_def using range num mem out by blast
qed

text \<open>
  On the example chart (traditional age 43, Wood-3) the current period is the fifth;
  ages 2 and 123 select no period.
\<close>

theorem currentDecadal_spec_witness:
  "map_option index (currentDecadal (calculateAstrolabe example_today example_astrolabe example_data))
     = Some 5
   \<and> calc_currentDecadal 2 (calc_decadalFortunes example_astrolabe example_data) = None
   \<and> calc_currentDecadal 123 (calc_decadalFortunes example_astrolabe example_data) = None
   \<and> getStartAge (e_fiveElementsClass example_astrolabe) = Number 3"
proof -
  let ?ds = "calc_decadalFortunes example_astrolabe example_data"
  note t = currentDecadal_spec [where astrolabe = example_astrolabe and data = example_data
      and today = example_today and s = 3, unfolded Let_def example_age,
      THEN conjunct2, THEN conjunct1, rule_format, OF example_startAge]
  note o = currentDecadal_spec [where astrolabe = example_astrolabe and data = example_data
      and today = example_today, unfolded Let_def example_age,
      THEN conjunct2, THEN conjunct2, THEN conjunct2, THEN conjunct2]
  have lo2: "(2::int) < 3 \<or> 3 + 119 < (2::int)" and hi2: "(123::int) < 3 \<or> 3 + 119 < (123::int)"
    by simp_all
  have lo: "calc_currentDecadal 2 ?ds = None"
    by (rule t [where a = 2, THEN conjunct2, THEN conjunct1, THEN mp, OF lo2])
  have hi: "calc_currentDecadal 123 ?ds = None"
    by (rule t [where a = 123, THEN conjunct2, THEN conjunct1, THEN mp, OF hi2])
  have fifth: "?ds ! 4 \<in> set ?ds" "index (?ds ! 4) = 5" "(43::int) \<in> window (?ds ! 4)"
    by (simp_all add: calc_decadalFortunes_eq example_startAge decadalFortune_def Let_def)
  have r: "(3::int) \<le> 43 \<and> (43::int) \<le> 3 + 119" by simp
  from t [where a = 43, THEN conjunct1, THEN mp, OF r]
  obtain p where p: "calc_currentDecadal 43 ?ds = Some p"
      "\<forall>q \<in> set ?ds. 43 \<in> window q \<longrightarrow> q = p"
    by blast
  from p(2) fifth(1,3) have "?ds ! 4 = p" by blast
  with p(1) fifth(2) have "map_option index (calc_currentDecadal 43 ?ds) = Some 5"
    by simp
  then have "map_option index
      (currentDecadal (calculateAstrolabe example_today example_astrolabe example_data)) = Some 5"
    by (simp only: o)
  with lo hi example_startAge show ?thesis by simp
qed

section \<open>Origin palace: the claims\<close>

text \<open>
  C6. The table of \<open>calculateOriginPalace\<close> has exactly the ten stems as its keys; for
  each of them the returned branch is the table's branch, one of the twelve branches;
  for any other stem the returned branch is Zi, the first branch of the ring. The
  returned palace name is the name of the palace of the list bound to that branch (in a
  chart, where no two palaces share a branch), and the Life Palace name when no palace
  of the list has that branch. Stem Jia gives branch Xu, and with a palace bound to Xu
  named Parents Palace the result is that branch with that name.
\<close>

theorem calculateOriginPalace_spec:
  fixes ps :: "PalaceData list"
  shows
  "map fst originMapping = heavenlyStems \<and> length heavenlyStems = 10 \<and> distinct heavenlyStems
   \<and> (st \<in> set heavenlyStems \<longrightarrow>
        map_of originMapping st = Some (branch (calculateOriginPalace st ps))
        \<and> branch (calculateOriginPalace st ps) \<in> set earthlyBranches)
   \<and> (st \<notin> set heavenlyStems \<longrightarrow>
        branch (calculateOriginPalace st ps) = br_zi \<and> br_zi = hd earthlyBranches)
   \<and> (distinct (map earthlyBranch ps) \<and> p \<in> set ps
        \<and> earthlyBranch p = branch (calculateOriginPalace st ps) \<longrightarrow>
        palace (calculateOriginPalace st ps) = name p)
   \<and> ((\<forall>q \<in> set ps. earthlyBranch q \<noteq> branch (calculateOriginPalace st ps)) \<longrightarrow>
        palace (calculateOriginPalace st ps) = ming_gong)
   \<and> branch (calculateOriginPalace st_jia ps) = br_xu
   \<and> (distinct (map earthlyBranch ps) \<and> p \<in> set ps
        \<and> earthlyBranch p = br_xu \<and> name p = fumu_gong \<longrightarrow>
        calculateOriginPalace st_jia ps = \<lparr>branch = br_xu, palace = fumu_gong\<rparr>)"
proof (intro conjI impI)
  show "map fst originMapping = heavenlyStems"
    by (simp add: originMapping_def heavenlyStems_def)
  show "length heavenlyStems = 10" "distinct heavenlyStems"
    by (simp_all add: heavenlyStems_def)
next
  assume "st \<in> set heavenlyStems"
  then show "map_of originMapping st = Some (branch (calculateOriginPalace st ps))"
    by (auto simp add: heavenlyStems_def calculateOriginPalace_def originMapping_def or_str_def Let_def)
next
  assume "st \<in> set heavenlyStems"
  then show "branch (calculateOriginPalace st ps) \<in> set earthlyBranches"
    by (auto simp add: heavenlyStems_def calculateOriginPalace_def originMapping_def or_str_def
          Let_def earthlyBranches_def)
next
  assume "st \<notin> set heavenlyStems"
  then show "branch (calculateOriginPalace st ps) = br_zi"
    by (simp add: heavenlyStems_def calculateOriginPalace_def originMapping_def or_str_def Let_def)
next
  show "br_zi = hd earthlyBranches"
    by (simp add: earthlyBranches_def)
next
  assume "distinct (map earthlyBranch ps) \<and> p \<in> set ps
        \<and> earthlyBranch p = branch (calculateOriginPalace st ps)"
  then show "palace (calculateOriginPalace st ps) = name p"
    using find_unique_branch [of ps p]
    by (simp add: calculateOriginPalace_def Let_def)
next
  assume "\<forall>q \<in> set ps. earthlyBranch q \<noteq> branch (calculateOriginPalace st ps)"
  then show "palace (calculateOriginPalace st ps) = ming_gong"
    using find_no_branch [of ps "branch (calculateOriginPalace st ps)"]
    by (simp add: calculateOriginPalace_def Let_def)
next
  show "branch (calculateOriginPalace st_jia ps) = br_xu"
    by (simp add: calculateOriginPalace_def originMapping_def or_str_def Let_def)
next
  assume h: "distinct (map earthlyBranch ps) \<and> p \<in> set ps
        \<and> earthlyBranch p = br_xu \<and> name p = fumu_gong"
  have b: "or_str (map_of originMapping st_jia) br_zi = br_xu"
    by (simp add: originMapping_def or_str_def)
  from h show "calculateOriginPalace st_jia ps = \<lparr>branch = br_xu, palace = fumu_gong\<rparr>"
    using find_unique_branch [of ps p]
    by (simp add: calculateOriginPalace_def Let_def b)
qed

text \<open>
  On the example chart the Parents Palace is on Xu; the symbol \<open>X\<close> is no stem; an
  empty palace list has no palace on Xu.
\<close>

theorem calculateOriginPalace_spec_witness:
  "calculateOriginPalace st_jia (calc_palaces example_astrolabe) = \<lparr>branch = br_xu, palace = fumu_gong\<rparr>
   \<and> branch (calculateOriginPalace [0x58] (calc_palaces example_astrolabe)) = br_zi
   \<and> palace (calculateOriginPalace st_jia []) = ming_gong"
proof -
  let ?ps = "calc_palaces example_astrolabe"
  let ?p = "calc_palace br_hai (mk_palace fumu_gong st_jia br_xu [] [] [])"
  have 1: "distinct (map earthlyBranch ?ps) \<and> ?p \<in> set ?ps
      \<and> earthlyBranch ?p = br_xu \<and> name ?p = fumu_gong"
    by (simp add: example_branches)
       (simp add: calc_palaces_def calc_palace_def mk_palace_def example_astrolabe_def
          example_palaces_def)
  have 2: "[0x58] \<notin> set heavenlyStems"
    by (simp add: heavenlyStems_def)
  have 3: "\<forall>q \<in> set ([] :: PalaceData list). earthlyBranch q \<noteq> branch (calculateOriginPalace st_jia [])"
    by simp
  show ?thesis
    using calculateOriginPalace_spec [where ps = ?ps and p = ?p and st = st_jia]
          calculateOriginPalace_spec [where ps = ?ps and st = "[0x58]"]
          calculateOriginPalace_spec [where ps = "[]" and st = st_jia]
          1 2 3
    by blast
qed

section \<open>Yearly fortune: the claims\<close>

text \<open>
  What holds of the yearly branch. A birth-year branch of the ring has its position in
  the ring as index, any other symbol has index -1. When the sum of the index and the
  year difference is not negative, the index of the current year is the sum modulo 12;
  when the sum is negative and not a multiple of 12, the index is negative and no
  branch is read. In the birth year itself, a birth-year branch of the ring is returned
  as it is.
\<close>

lemma indexOf_from_notin: "x \<notin> set xs \<Longrightarrow> indexOf_from i xs x = - 1"
  by (induction xs arbitrary: i) auto

lemma indexOf_from_in:
  "x \<in> set xs \<Longrightarrow>
     i \<le> indexOf_from i xs x \<and> indexOf_from i xs x < i + int (length xs)
     \<and> xs ! nat (indexOf_from i xs x - i) = x"
proof (induction xs arbitrary: i)
  case Nil
  then show ?case by simp
next
  case (Cons y ys)
  show ?case
  proof (cases "y = x")
    case True
    then show ?thesis by simp
  next
    case False
    with Cons.prems have "x \<in> set ys" by simp
    from Cons.IH [OF this, of "i + 1"]
    have k: "i + 1 \<le> indexOf_from (i + 1) ys x"
        "indexOf_from (i + 1) ys x < i + 1 + int (length ys)"
        "ys ! nat (indexOf_from (i + 1) ys x - (i + 1)) = x"
      by simp_all
    from k(1) have "nat (indexOf_from (i + 1) ys x - i) = Suc (nat (indexOf_from (i + 1) ys x - (i + 1)))"
      by linarith
    with k False show ?thesis by simp
  qed
qed

lemma birthBranchIndex_unknown:
  "birthYearBranch astrolabe \<notin> set earthlyBranches \<Longrightarrow> birthBranchIndex astrolabe = - 1"
  by (simp add: birthBranchIndex_def indexOf_def indexOf_from_notin)

lemma birthBranchIndex_known:
  assumes "birthYearBranch astrolabe \<in> set earthlyBranches"
  shows "0 \<le> birthBranchIndex astrolabe \<and> birthBranchIndex astrolabe < 12
     \<and> earthlyBranches ! nat (birthBranchIndex astrolabe) = birthYearBranch astrolabe"
proof -
  have "length earthlyBranches = 12" by (simp add: earthlyBranches_def)
  with indexOf_from_in [OF assms, of 0] show ?thesis
    by (simp add: birthBranchIndex_def indexOf_def)
qed

lemma currentYearBranchIndex_nonneg:
  "0 \<le> birthBranchIndex astrolabe + (currentYear today - year data) \<Longrightarrow>
     currentYearBranchIndex today astrolabe data
       = (birthBranchIndex astrolabe + (currentYear today - year data)) mod 12"
  by (simp add: currentYearBranchIndex_def rem_nonneg)

lemma currentYearBranchIndex_negative:
  assumes "birthBranchIndex astrolabe + (currentYear today - year data) < 0"
    and "\<not> 12 dvd (birthBranchIndex astrolabe + (currentYear today - year data))"
  shows "currentYearBranchIndex today astrolabe data < 0"
    and "currentYearBranch today astrolabe data = None"
proof -
  let ?a = "birthBranchIndex astrolabe + (currentYear today - year data)"
  from assms(2) have "\<bar>?a\<bar> mod 12 \<noteq> 0"
    by (simp add: dvd_eq_mod_eq_0 [symmetric])
  moreover have "0 \<le> \<bar>?a\<bar> mod 12"
    by simp
  ultimately have "0 < \<bar>?a\<bar> mod 12"
    by linarith
  with assms(1) show neg: "currentYearBranchIndex today astrolabe data < 0"
    by (simp add: currentYearBranchIndex_def rem_def mult_less_0_iff)
  then show "currentYearBranch today astrolabe data = None"
    by (simp add: currentYearBranch_def at_index_def)
qed

lemma currentYearBranch_birth_year:
  assumes "birthYearBranch astrolabe \<in> set earthlyBranches" and "currentYear today = year data"
  shows "y_earthlyBranch (currentYearly (calculateAstrolabe today astrolabe data))
     = Some (birthYearBranch astrolabe)"
proof -
  from birthBranchIndex_known [OF assms(1)]
  have i: "0 \<le> birthBranchIndex astrolabe" "birthBranchIndex astrolabe < 12"
      "earthlyBranches ! nat (birthBranchIndex astrolabe) = birthYearBranch astrolabe"
    by simp_all
  have "currentYearBranchIndex today astrolabe data = birthBranchIndex astrolabe"
    using i(1,2) assms(2) by (simp add: currentYearBranchIndex_def rem_nonneg)
  moreover have "length earthlyBranches = 12" by (simp add: earthlyBranches_def)
  ultimately have "currentYearBranch today astrolabe data = Some (birthYearBranch astrolabe)"
    using i by (simp add: currentYearBranch_def at_index_def)
  then show ?thesis
    by (simp add: calculateAstrolabe_def calc_currentYearly_def Let_def split: prod.split)
qed

text \<open>
  C8. The remainder operator of the source takes the sign of its left operand, so the
  index \<open>(birthBranchIndex + yearDiff) % 12\<close> is negative when the sum is negative and
  not a multiple of 12. For the example chart (birth-year branch Zi, index 0) with the
  birth year 2044 and the current year 2026 the difference is -18 and the index is -6:
  no branch is read from the ring, and the yearly fortune has no branch and an empty
  palace name.
\<close>

theorem yearly_branch_future_birth:
  "currentYearBranchIndex example_today example_astrolabe (example_data\<lparr>year := 2044\<rparr>) = - 6
   \<and> birthBranchIndex example_astrolabe = 0
   \<and> y_earthlyBranch (currentYearly (calculateAstrolabe example_today example_astrolabe
        (example_data\<lparr>year := 2044\<rparr>))) = None
   \<and> y_palaceName (currentYearly (calculateAstrolabe example_today example_astrolabe
        (example_data\<lparr>year := 2044\<rparr>))) = []"
  by (simp add: calculateAstrolabe_def calc_currentYearly_def currentYearBranch_def
        currentYearBranchIndex_def birthBranchIndex_def birthYearBranch_def charAt_def or_str_def
        indexOf_def earthlyBranches_def rem_def at_index_def example_astrolabe_def example_data_def
        example_today_def Let_def find_never split: prod.split)

text \<open>
  C9. \<open>indexOf\<close> returns -1 for a symbol that is not in the ring; the default to the
  first branch applies only when the date string has no second character. With the
  second character \<open>X\<close> the birth branch index is -1, not 0: for the example birth
  (1984, read in 2026) the yearly branch is Si, where the birth-year branch Zi gives Wu;
  read in the birth year itself, no branch is found. With the date string absent the
  index is 0.
\<close>

theorem yearly_branch_unknown_symbol:
  "birthYearBranch (example_astrolabe\<lparr>e_chineseDate := Some (st_jia @ [0x58])\<rparr>) = [0x58]
   \<and> birthBranchIndex (example_astrolabe\<lparr>e_chineseDate := Some (st_jia @ [0x58])\<rparr>) = - 1
   \<and> y_earthlyBranch (currentYearly (calculateAstrolabe example_today
        (example_astrolabe\<lparr>e_chineseDate := Some (st_jia @ [0x58])\<rparr>) example_data)) = Some br_si
   \<and> y_earthlyBranch (currentYearly (calculateAstrolabe example_today
        (example_astrolabe\<lparr>e_chineseDate := Some (st_jia @ br_zi)\<rparr>) example_data)) = Some br_wu
   \<and> y_earthlyBranch (currentYearly (calculateAstrolabe example_today
        (example_astrolabe\<lparr>e_chineseDate := Some (st_jia @ [0x58])\<rparr>)
        (example_data\<lparr>year := 2026\<rparr>))) = None
   \<and> birthBranchIndex (example_astrolabe\<lparr>e_chineseDate := None\<rparr>) = 0"
  by (simp add: calculateAstrolabe_def calc_currentYearly_def currentYearBranch_def
        currentYearBranchIndex_def birthBranchIndex_def birthYearBranch_def charAt_def or_str_def
        indexOf_def earthlyBranches_def rem_def at_index_def example_astrolabe_def example_data_def
        example_today_def Let_def split: prod.split)

end
